theory Spec2Isabelle
  imports Complex_Main
begin

section \<open>JavaScript values\<close>

text \<open>
  The service is TypeScript; at run time its data are JavaScript values. A number is a
  finite value, NaN or an infinity (finite values are rationals here: the rounding of
  IEEE doubles is not modelled). A \<open>Date\<close> holds a time in milliseconds, or is the
  invalid date. Objects are association lists from property names to values.
\<close>

datatype jsnum = Fin rat | NaN | PosInf | NegInf

datatype jsdate = DateMs int | InvalidDate

datatype jsv =
    VUndef
  | VNull
  | VBool bool
  | VNum jsnum
  | VStr string
  | VDate jsdate
  | VArr "jsv list"
  | VObj "(string \<times> jsv) list"

text \<open>The relational operators \<open><\<close>, \<open>>\<close>, \<open>>=\<close>, \<open><=\<close> and
  \<open>===\<close> on numbers: every comparison with NaN is false.\<close>

fun js_lt :: "jsnum \<Rightarrow> jsnum \<Rightarrow> bool" where
  "js_lt NaN _ = False"
| "js_lt _ NaN = False"
| "js_lt (Fin x) (Fin y) = (x < y)"
| "js_lt (Fin _) PosInf = True"
| "js_lt (Fin _) NegInf = False"
| "js_lt PosInf _ = False"
| "js_lt NegInf NegInf = False"
| "js_lt NegInf _ = True"

fun js_eq :: "jsnum \<Rightarrow> jsnum \<Rightarrow> bool" where
  "js_eq NaN _ = False"
| "js_eq _ NaN = False"
| "js_eq a b = (a = b)"

definition js_gt :: "jsnum \<Rightarrow> jsnum \<Rightarrow> bool" where
  "js_gt a b = js_lt b a"

definition js_le :: "jsnum \<Rightarrow> jsnum \<Rightarrow> bool" where
  "js_le a b = (js_lt a b \<or> js_eq a b)"

definition js_ge :: "jsnum \<Rightarrow> jsnum \<Rightarrow> bool" where
  "js_ge a b = js_le b a"

fun js_add :: "jsnum \<Rightarrow> jsnum \<Rightarrow> jsnum" where
  "js_add NaN _ = NaN"
| "js_add _ NaN = NaN"
| "js_add (Fin x) (Fin y) = Fin (x + y)"
| "js_add PosInf NegInf = NaN"
| "js_add NegInf PosInf = NaN"
| "js_add PosInf _ = PosInf"
| "js_add NegInf _ = NegInf"
| "js_add (Fin _) b = b"

fun js_sign :: "jsnum \<Rightarrow> int" where
  "js_sign (Fin x) = (if x < 0 then -1 else if x = 0 then 0 else 1)"
| "js_sign PosInf = 1"
| "js_sign NegInf = -1"
| "js_sign NaN = 0"

definition js_inf :: "int \<Rightarrow> jsnum" where
  "js_inf s = (if s < 0 then NegInf else PosInf)"

fun js_mul :: "jsnum \<Rightarrow> jsnum \<Rightarrow> jsnum" where
  "js_mul NaN _ = NaN"
| "js_mul _ NaN = NaN"
| "js_mul (Fin x) (Fin y) = Fin (x * y)"
| "js_mul a b = (if js_sign a * js_sign b = 0 then NaN else js_inf (js_sign a * js_sign b))"

fun js_div :: "jsnum \<Rightarrow> jsnum \<Rightarrow> jsnum" where
  "js_div NaN _ = NaN"
| "js_div _ NaN = NaN"
| "js_div (Fin x) (Fin y) =
     (if y = 0 then (if x = 0 then NaN else js_inf (js_sign (Fin x))) else Fin (x / y))"
| "js_div (Fin _) _ = Fin 0"
| "js_div a (Fin y) = js_inf (js_sign a * (if y < 0 then -1 else 1))"
| "js_div _ _ = NaN"

text \<open>Comparison of two dates compares their time values; the invalid date has the
  time value NaN.\<close>

fun getTime :: "jsdate \<Rightarrow> jsnum" where
  "getTime (DateMs t) = Fin (of_int t)"
| "getTime InvalidDate = NaN"

definition date_lt :: "jsdate \<Rightarrow> jsdate \<Rightarrow> bool" where
  "date_lt a b = js_lt (getTime a) (getTime b)"

definition date_le :: "jsdate \<Rightarrow> jsdate \<Rightarrow> bool" where
  "date_le a b = js_le (getTime a) (getTime b)"

definition date_ge :: "jsdate \<Rightarrow> jsdate \<Rightarrow> bool" where
  "date_ge a b = date_le b a"

section \<open>The order record\<close>

text \<open>
  The interface \<open>Order\<close> of \<open>types.ts\<close>, with the 45 fields that the two file
  formats carry. A nullable date is an \<open>option\<close>. Fields that the importers fill
  with whatever a cell holds (\<open>id\<close>, \<open>archivedBy\<close>, the three sector mappings)
  are JavaScript values. \<open>id\<close> and \<open>size\<close> are renamed, as HOL has constants of
  these names.
\<close>

record Order =
  order_id :: jsv
  docNr :: string
  clientCode :: string
  clientName :: string
  comercial :: string
  issueDate :: "jsdate option"
  requestedDate :: "jsdate option"
  itemNr :: jsnum
  po :: string
  articleCode :: string
  reference :: string
  colorCode :: string
  colorDesc :: string
  sizeTxt :: string
  family :: string
  sizeDesc :: string
  ean :: string
  qtyRequested :: jsnum
  dataTec :: "jsdate option"
  felpoCruQty :: jsnum
  felpoCruDate :: "jsdate option"
  tinturariaQty :: jsnum
  tinturariaDate :: "jsdate option"
  confRoupoesQty :: jsnum
  confFelposQty :: jsnum
  confDate :: "jsdate option"
  embAcabQty :: jsnum
  armExpDate :: "jsdate option"
  stockCxQty :: jsnum
  qtyBilled :: jsnum
  qtyOpen :: jsnum
  dataEnt :: "jsdate option"
  priority :: jsnum
  isManual :: bool
  sectorObservations :: jsv
  sectorPredictedDates :: jsv
  sectorStopReasons :: jsv
  dataEspecial :: "jsdate option"
  dataPrinter :: "jsdate option"
  dataDebuxo :: "jsdate option"
  dataAmostras :: "jsdate option"
  dataBordados :: "jsdate option"
  isArchived :: bool
  archivedAt :: "jsdate option"
  archivedBy :: jsv

datatype OrderState = OPEN | IN_PRODUCTION | LATE | COMPLETED

datatype SectorState = NOT_STARTED | IN_PROGRESS | SECTOR_COMPLETED

section \<open>Order state machine\<close>

text \<open>
  \<open>new Date()\<close> reads the clock; the reading, in milliseconds, is the first argument
  of every function that reads it. Local time is modelled as UTC, without daylight
  saving: \<open>setHours(0, 0, 0, 0)\<close> rounds down to a multiple of a day.
\<close>

definition msPerDay :: int where
  "msPerDay = 86400000"

definition startOfDay :: "int \<Rightarrow> int" where
  "startOfDay t = t - t mod msPerDay"

text \<open>\<open>d && d < now\<close> for a nullable date: a date object is truthy, also the
  invalid one.\<close>

definition isPast :: "int \<Rightarrow> jsdate option \<Rightarrow> bool" where
  "isPast now d = (case d of None \<Rightarrow> False | Some x \<Rightarrow> date_lt x (DateMs now))"

definition isCompleted :: "Order \<Rightarrow> bool" where
  "isCompleted ord =
     (js_eq (qtyOpen ord) (Fin 0)
      \<or> (js_ge (stockCxQty ord) (qtyRequested ord) \<and> js_gt (qtyRequested ord) (Fin 0)))"

definition confTotal :: "Order \<Rightarrow> jsnum" where
  "confTotal ord = js_add (confRoupoesQty ord) (confFelposQty ord)"

definition hasStarted :: "Order \<Rightarrow> bool" where
  "hasStarted ord =
     (js_gt (felpoCruQty ord) (Fin 0) \<or> js_gt (tinturariaQty ord) (Fin 0)
      \<or> js_gt (confTotal ord) (Fin 0) \<or> js_gt (embAcabQty ord) (Fin 0))"

definition getOrderState :: "int \<Rightarrow> Order \<Rightarrow> OrderState" where
  "getOrderState clock ord =
     (let now = startOfDay clock in
      if isCompleted ord then COMPLETED
      else if isPast now (dataTec ord) \<and> js_lt (felpoCruQty ord) (qtyRequested ord) then LATE
      else if isPast now (felpoCruDate ord) \<and> js_lt (felpoCruQty ord) (qtyRequested ord) then LATE
      else if isPast now (tinturariaDate ord) \<and> js_lt (confTotal ord) (qtyRequested ord) then LATE
      else if isPast now (confDate ord) \<and> js_lt (embAcabQty ord) (qtyRequested ord) then LATE
      else if isPast now (requestedDate ord) \<and> js_gt (qtyOpen ord) (Fin 0) then LATE
      else if hasStarted ord then IN_PRODUCTION
      else OPEN)"

definition sectorQty :: "Order \<Rightarrow> string \<Rightarrow> jsnum" where
  "sectorQty ord sectorId =
     (if sectorId = ''tecelagem'' then felpoCruQty ord
      else if sectorId = ''felpo_cru'' then felpoCruQty ord
      else if sectorId = ''tinturaria'' then tinturariaQty ord
      else if sectorId = ''confeccao'' then js_add (confRoupoesQty ord) (confFelposQty ord)
      else if sectorId = ''embalagem'' then embAcabQty ord
      else if sectorId = ''expedicao'' then stockCxQty ord
      else Fin 0)"

definition getSectorState :: "Order \<Rightarrow> string \<Rightarrow> SectorState" where
  "getSectorState ord sectorId =
     (let qty = sectorQty ord sectorId in
      if js_gt (qtyRequested ord) (Fin 0) \<and> js_ge qty (qtyRequested ord) then SECTOR_COMPLETED
      else if js_gt qty (Fin 0) then IN_PROGRESS
      else NOT_STARTED)"

text \<open>The closed set of sector identifiers (\<open>SECTORS\<close> of \<open>constants.ts\<close>, as the
  \<open>switch\<close> of \<open>getSectorState\<close> lists them).\<close>

definition sectorIds :: "string list" where
  "sectorIds = [''tecelagem'', ''felpo_cru'', ''tinturaria'', ''confeccao'', ''embalagem'',
                ''expedicao'']"

text \<open>The five conditions "due date passed without sufficient output".\<close>

definition lateConditions :: "int \<Rightarrow> Order \<Rightarrow> bool" where
  "lateConditions now ord =
     ((isPast now (dataTec ord) \<and> js_lt (felpoCruQty ord) (qtyRequested ord))
      \<or> (isPast now (felpoCruDate ord) \<and> js_lt (felpoCruQty ord) (qtyRequested ord))
      \<or> (isPast now (tinturariaDate ord)
           \<and> js_lt (js_add (confRoupoesQty ord) (confFelposQty ord)) (qtyRequested ord))
      \<or> (isPast now (confDate ord) \<and> js_lt (embAcabQty ord) (qtyRequested ord))
      \<or> (isPast now (requestedDate ord) \<and> js_gt (qtyOpen ord) (Fin 0)))"

section \<open>KPI aggregation\<close>

text \<open>\<open>getDay\<close>: 0 is Sunday; 1 January 1970 was a Thursday.\<close>

definition getDay :: "int \<Rightarrow> int" where
  "getDay t = (t div msPerDay + 4) mod 7"

text \<open>\<open>getWeekRange\<close>: Monday 00:00:00.000 to Sunday 23:59:59.999 of the week of the
  given instant. \<open>setDate\<close> with a day of the month out of range moves into the
  neighbouring month, so it shifts by whole days.\<close>

definition getWeekRange :: "int \<Rightarrow> int \<times> int" where
  "getWeekRange date =
     (let current = startOfDay date;
          day = getDay current;
          diff = - day + (if day = 0 then - 6 else 1);
          startOfWeek = current + diff * msPerDay;
          endOfWeek = startOfDay (startOfWeek + 6 * msPerDay) + (msPerDay - 1)
      in (startOfWeek, endOfWeek))"

record DashboardKPIs =
  totalActiveDocs :: nat
  totalLate :: nat
  deliveriesThisWeek :: nat
  fulfillmentRateWeek :: jsnum
  totalInProduction :: nat
  billed :: jsnum
  openQty :: jsnum

definition inWeek :: "int \<Rightarrow> int \<Rightarrow> Order \<Rightarrow> bool" where
  "inWeek weekStart weekEnd ord =
     (case (case requestedDate ord of Some d \<Rightarrow> Some d | None \<Rightarrow> armExpDate ord) of
        None \<Rightarrow> False
      | Some dateToCheck \<Rightarrow>
          date_ge dateToCheck (DateMs weekStart) \<and> date_le dateToCheck (DateMs weekEnd))"

definition countsAsFulfilled :: "int \<Rightarrow> Order \<Rightarrow> bool" where
  "countsAsFulfilled clock ord =
     (getOrderState clock ord = COMPLETED
      \<or> getSectorState ord ''expedicao'' = SECTOR_COMPLETED
      \<or> getSectorState ord ''expedicao'' = IN_PROGRESS)"

definition calculateKPIs :: "int \<Rightarrow> Order list \<Rightarrow> DashboardKPIs" where
  "calculateKPIs clock orders =
     (let (weekStart, weekEnd) = getWeekRange clock;
          activeOrders = filter (\<lambda>ord. js_gt (qtyOpen ord) (Fin 0)) orders;
          uniqueActiveDocs = remdups (map docNr activeOrders);
          late = filter (\<lambda>ord. getOrderState clock ord = LATE) orders;
          ordersThisWeek = filter (inWeek weekStart weekEnd) orders;
          deliveries = length ordersThisWeek;
          completedThisWeek = length (filter (countsAsFulfilled clock) ordersThisWeek);
          rate = (if deliveries > 0
                  then js_mul (js_div (Fin (of_nat completedThisWeek)) (Fin (of_nat deliveries)))
                         (Fin 100)
                  else Fin 0)
      in \<lparr> totalActiveDocs = length uniqueActiveDocs,
           totalLate = length late,
           deliveriesThisWeek = deliveries,
           fulfillmentRateWeek = rate,
           totalInProduction = length activeOrders,
           billed = foldl (\<lambda>acc ord. js_add acc (qtyBilled ord)) (Fin 0) orders,
           openQty = foldl (\<lambda>acc ord. js_add acc (qtyOpen ord)) (Fin 0) orders \<rparr>)"

section \<open>The platform\<close>

text \<open>
  Functions of the JavaScript platform and of modules outside this file that the service
  calls and whose results depend on more than this model holds: the rendering of a number
  or a date as text, \<open>Date\<close> parsing, JSON, the text SQLite stores for a number, and
  \<open>parseExcelDate\<close> and \<open>formatDate\<close> of \<open>utils/formatters\<close>. They are
  arguments of the model, and every theorem holds for any choice of them.
  \<open>jsonParse\<close> answers \<open>None\<close> where \<open>JSON.parse\<close> throws.
\<close>

record platform =
  numToString :: "jsnum \<Rightarrow> string"
  dateToString :: "jsdate \<Rightarrow> string"
  dateParse :: "string \<Rightarrow> jsdate"
  jsonParse :: "string \<Rightarrow> jsv option"
  jsonStringify :: "jsv \<Rightarrow> string"
  sqliteNumText :: "jsnum \<Rightarrow> string"
  parseExcelDate :: "jsv \<Rightarrow> jsdate option"
  formatDate :: "jsv \<Rightarrow> string"

section \<open>Strings and conversions\<close>

text \<open>
  A \<open>char\<close> stands for one UTF-16 code unit below 256 (Latin-1, which holds every
  character of the labels of this service). \<open>truthy\<close> is JavaScript's conversion to
  a boolean, \<open>js_String\<close> is \<open>String(v)\<close>.
\<close>

fun truthy :: "jsv \<Rightarrow> bool" where
  "truthy VUndef = False"
| "truthy VNull = False"
| "truthy (VBool b) = b"
| "truthy (VNum n) = (n \<noteq> Fin 0 \<and> n \<noteq> NaN)"
| "truthy (VStr s) = (s \<noteq> [])"
| "truthy _ = True"

text \<open>\<open>a || b\<close>\<close>

definition orElse :: "jsv \<Rightarrow> jsv \<Rightarrow> jsv" where
  "orElse a b = (if truthy a then a else b)"

fun joinWith :: "string \<Rightarrow> string list \<Rightarrow> string" where
  "joinWith sep [] = []"
| "joinWith sep [x] = x"
| "joinWith sep (x # xs) = x @ sep @ joinWith sep xs"

fun js_String :: "platform \<Rightarrow> jsv \<Rightarrow> string" where
  "js_String P VUndef = ''undefined''"
| "js_String P VNull = ''null''"
| "js_String P (VBool b) = (if b then ''true'' else ''false'')"
| "js_String P (VNum n) = numToString P n"
| "js_String P (VStr s) = s"
| "js_String P (VDate d) = dateToString P d"
| "js_String P (VArr xs) =
     joinWith '','' (map (\<lambda>x. if x = VUndef \<or> x = VNull then [] else js_String P x) xs)"
| "js_String P (VObj kvs) = ''[object Object]''"

text \<open>White space of \<open>trim\<close> and \<open>parseFloat\<close>: tab, line feed, vertical tab, form
  feed, carriage return, space and the no-break space.\<close>

definition isWhite :: "char \<Rightarrow> bool" where
  "isWhite c = (c \<in> set [CHR '' '', CHR 0x09, CHR 0x0A, CHR 0x0B, CHR 0x0C, CHR 0x0D, CHR 0xA0])"

definition trim :: "string \<Rightarrow> string" where
  "trim s = rev (dropWhile isWhite (rev (dropWhile isWhite s)))"

definition isDigit :: "char \<Rightarrow> bool" where
  "isDigit c = (48 \<le> (of_char c :: nat) \<and> (of_char c :: nat) \<le> 57)"

definition digitVal :: "char \<Rightarrow> nat" where
  "digitVal c = of_char c - 48"

definition digitsVal :: "string \<Rightarrow> nat" where
  "digitsVal ds = foldl (\<lambda>a c. a * 10 + digitVal c) 0 ds"

text \<open>An optional sign at the head of a string.\<close>

definition takeSign :: "string \<Rightarrow> bool \<times> string" where
  "takeSign s =
     (case s of
        [] \<Rightarrow> (False, s)
      | c # r \<Rightarrow> if c = CHR ''-'' then (True, r)
                 else if c = CHR ''+'' then (False, r)
                 else (False, s))"

text \<open>The exponent part of a decimal literal; it counts only when a digit follows.\<close>

definition parseExponent :: "string \<Rightarrow> int" where
  "parseExponent r =
     (case r of
        [] \<Rightarrow> 0
      | e # r1 \<Rightarrow>
          if e = CHR ''e'' \<or> e = CHR ''E'' then
            (let (neg, r2) = takeSign r1;
                 ds = takeWhile isDigit r2
             in if ds = [] then 0
                else if neg then - int (digitsVal ds) else int (digitsVal ds))
          else 0)"

definition pow10 :: "int \<Rightarrow> rat" where
  "pow10 e = (if e < 0 then 1 / 10 ^ nat (- e) else 10 ^ nat e)"

text \<open>
  \<open>parseFloat\<close>: skip white space, then read the longest prefix that is a decimal
  literal (sign, digits, fraction, exponent) or \<open>Infinity\<close>; NaN when there is none.
  The value is exact; a double would round it, and overflow to an infinity.
\<close>

definition parseFloat :: "string \<Rightarrow> jsnum" where
  "parseFloat s =
     (let (neg, s2) = takeSign (dropWhile isWhite s)
      in if take 8 s2 = ''Infinity'' then (if neg then NegInf else PosInf)
         else
           (let ip = takeWhile isDigit s2;
                r1 = dropWhile isDigit s2;
                (fp, r2) = (case r1 of
                              [] \<Rightarrow> ([], r1)
                            | c # r \<Rightarrow> if c = CHR ''.''
                                       then (takeWhile isDigit r, dropWhile isDigit r)
                                       else ([], r1))
            in if ip = [] \<and> fp = [] then NaN
               else
                 (let mant = of_nat (digitsVal ip) + of_nat (digitsVal fp) / 10 ^ length fp;
                      v = mant * pow10 (parseExponent r2)
                  in Fin (if neg then - v else v))))"

text \<open>\<open>s.replace(a, b)\<close> with a string pattern replaces the first occurrence;
  \<open>s.replace(/\./g, '')\<close> removes every dot; \<open>s.split('.')\<close>.\<close>

fun replaceFirst :: "char \<Rightarrow> char \<Rightarrow> string \<Rightarrow> string" where
  "replaceFirst a b [] = []"
| "replaceFirst a b (c # cs) = (if c = a then b # cs else c # replaceFirst a b cs)"

definition removeAll_char :: "char \<Rightarrow> string \<Rightarrow> string" where
  "removeAll_char a s = filter (\<lambda>c. c \<noteq> a) s"

fun splitOn :: "char \<Rightarrow> string \<Rightarrow> string list" where
  "splitOn a [] = [[]]"
| "splitOn a (c # cs) =
     (if c = a then [] # splitOn a cs
      else (case splitOn a cs of [] \<Rightarrow> [[c]] | p # ps \<Rightarrow> (c # p) # ps))"

section \<open>Numeric normaliser\<close>

text \<open>\<open>isNaN(num) ? 0 : num\<close>\<close>

definition nanToZero :: "jsnum \<Rightarrow> jsnum" where
  "nanToZero num = (if num = NaN then Fin 0 else num)"

definition parseNumber :: "platform \<Rightarrow> jsv \<Rightarrow> jsnum" where
  "parseNumber P val =
     (case val of
        VNum n \<Rightarrow> n
      | _ \<Rightarrow>
        if \<not> truthy val then Fin 0
        else
          (let str = trim (js_String P val) in
           if str = [] then Fin 0
           else if CHR '','' \<in> set str \<and> CHR ''.'' \<in> set str then
             nanToZero (parseFloat
               (replaceFirst (CHR '','') (CHR ''.'') (removeAll_char (CHR ''.'') str)))
           else if CHR '','' \<in> set str then
             nanToZero (parseFloat (replaceFirst (CHR '','') (CHR ''.'') str))
           else if CHR ''.'' \<in> set str
                   \<and> length (splitOn (CHR ''.'') str) > 1
                   \<and> length (last (splitOn (CHR ''.'') str)) = 3 then
             nanToZero (parseFloat (removeAll_char (CHR ''.'') str))
           else nanToZero (parseFloat str)))"

section \<open>Objects, rows and further conversions\<close>

text \<open>A JavaScript object is a list of properties in insertion order; reading a
  property that is missing gives \<open>undefined\<close>, writing one that exists keeps its
  place.\<close>

type_synonym jsobj = "(string \<times> jsv) list"

definition getProp :: "jsobj \<Rightarrow> string \<Rightarrow> jsv" where
  "getProp obj k = (case map_of obj k of None \<Rightarrow> VUndef | Some v \<Rightarrow> v)"

fun setProp :: "string \<Rightarrow> 'a \<Rightarrow> (string \<times> 'a) list \<Rightarrow> (string \<times> 'a) list" where
  "setProp k v [] = [(k, v)]"
| "setProp k v ((k', v') # r) = (if k = k' then (k, v) # r else (k', v') # setProp k v r)"

datatype error = SyntaxError | TypeError | ErroProcessarExcel | DatabaseError

text \<open>\<open>toLowerCase\<close> on Latin-1: the letters A to Z and the accented capitals.\<close>

definition lowerChar :: "char \<Rightarrow> char" where
  "lowerChar c =
     (let n = (of_char c :: nat)
      in if (65 \<le> n \<and> n \<le> 90) \<or> (192 \<le> n \<and> n \<le> 222 \<and> n \<noteq> 215)
         then char_of (n + 32) else c)"

definition toLowerCase :: "string \<Rightarrow> string" where
  "toLowerCase s = map lowerChar s"

fun startsWith :: "string \<Rightarrow> string \<Rightarrow> bool" where
  "startsWith s [] = True"
| "startsWith [] (p # ps) = False"
| "startsWith (c # cs) (p # ps) = (c = p \<and> startsWith cs ps)"

fun js_includes :: "string \<Rightarrow> string \<Rightarrow> bool" where
  "js_includes [] sub = (sub = [])"
| "js_includes (c # cs) sub = (startsWith (c # cs) sub \<or> js_includes cs sub)"

text \<open>\<open>js_includes s sub\<close> is \<open>s.includes(sub)\<close>.\<close>

text \<open>\<open>parseInt(v)\<close> without a radix: the text of \<open>v\<close>, white space skipped, a sign,
  then hexadecimal digits after \<open>0x\<close> and decimal digits otherwise; NaN when there is no
  digit.\<close>

definition hexDigitVal :: "char \<Rightarrow> nat option" where
  "hexDigitVal c =
     (let n = (of_char c :: nat)
      in if 48 \<le> n \<and> n \<le> 57 then Some (n - 48)
         else if 65 \<le> n \<and> n \<le> 70 then Some (n - 55)
         else if 97 \<le> n \<and> n \<le> 102 then Some (n - 87)
         else None)"

definition hexVal :: "string \<Rightarrow> nat" where
  "hexVal ds = foldl (\<lambda>a c. a * 16 + (case hexDigitVal c of None \<Rightarrow> 0 | Some d \<Rightarrow> d)) 0 ds"

definition parseInt :: "platform \<Rightarrow> jsv \<Rightarrow> jsnum" where
  "parseInt P v =
     (let (neg, s2) = takeSign (dropWhile isWhite (js_String P v));
          sgn = (\<lambda>n. Fin (if neg then - of_nat n else of_nat n))
      in if take 2 s2 = ''0x'' \<or> take 2 s2 = ''0X'' then
           (let ds = takeWhile (\<lambda>c. hexDigitVal c \<noteq> None) (drop 2 s2)
            in if ds = [] then NaN else sgn (hexVal ds))
         else
           (let ds = takeWhile isDigit s2
            in if ds = [] then NaN else sgn (digitsVal ds)))"

text \<open>\<open>new Date(v)\<close>: a number is a time value, clipped to the range of dates and
  truncated to an integer; a string is parsed; an object is converted to a string
  first.\<close>

definition timeClip :: "jsnum \<Rightarrow> jsdate" where
  "timeClip n =
     (case n of
        Fin x \<Rightarrow> if \<bar>x\<bar> \<le> 8640000000000000
                 then DateMs (if 0 \<le> x then \<lfloor>x\<rfloor> else \<lceil>x\<rceil>)
                 else InvalidDate
      | _ \<Rightarrow> InvalidDate)"

definition newDate :: "platform \<Rightarrow> jsv \<Rightarrow> jsdate" where
  "newDate P v =
     (case v of
        VUndef \<Rightarrow> InvalidDate
      | VNull \<Rightarrow> DateMs 0
      | VBool b \<Rightarrow> DateMs (if b then 1 else 0)
      | VNum n \<Rightarrow> timeClip n
      | VStr s \<Rightarrow> dateParse P s
      | VDate d \<Rightarrow> d
      | _ \<Rightarrow> dateParse P (js_String P v))"

text \<open>
  The hydration loop \<open>Object.keys(m).forEach(k => { if (m[k]) m[k] = new Date(m[k]) })\<close>.
  \<open>Object.keys\<close> throws on \<open>null\<close> and \<open>undefined\<close>; a string has its indices as
  keys, and the assignment to one throws in a module (strict mode); numbers, booleans
  and dates have no keys.
\<close>

definition hydrateEntry :: "platform \<Rightarrow> jsv \<Rightarrow> jsv" where
  "hydrateEntry P x = (if truthy x then VDate (newDate P x) else x)"

definition hydrateDates :: "platform \<Rightarrow> jsv \<Rightarrow> error + jsv" where
  "hydrateDates P v =
     (case v of
        VObj kvs \<Rightarrow> Inr (VObj (map (\<lambda>(k, x). (k, hydrateEntry P x)) kvs))
      | VArr xs \<Rightarrow> Inr (VArr (map (hydrateEntry P) xs))
      | VStr s \<Rightarrow> if s = [] then Inr v else Inl TypeError
      | VNull \<Rightarrow> Inl TypeError
      | VUndef \<Rightarrow> Inl TypeError
      | _ \<Rightarrow> Inr v)"

section \<open>Spreadsheet import\<close>

text \<open>
  A workbook, as \<open>XLSX.read\<close> and \<open>sheet_to_json\<close> with \<open>header: 'A'\<close> give it:
  sheets in order, each a list of rows, each row an object with the column letters of
  its cells as properties. A file that cannot be decoded is \<open>Undecodable\<close>.
\<close>

datatype xlsx_file = Undecodable | Workbook "(string \<times> jsobj list) list"

text \<open>\<open>row[c] ? JSON.parse(row[c]) : {}\<close>\<close>

definition jsonCell :: "platform \<Rightarrow> jsv \<Rightarrow> error + jsv" where
  "jsonCell P c =
     (if truthy c
      then (case jsonParse P (js_String P c) of None \<Rightarrow> Inl SyntaxError | Some v \<Rightarrow> Inr v)
      else Inr (VObj []))"

text \<open>\<open>row[c] === 1 || row[c] === '1' || row[c] === true\<close>\<close>

definition flagCell :: "jsv \<Rightarrow> bool" where
  "flagCell c = (c = VNum (Fin 1) \<or> c = VStr ''1'' \<or> c = VBool True)"

text \<open>\<open>String(a || b || '').trim()\<close>\<close>

definition textCell :: "platform \<Rightarrow> jsv \<Rightarrow> string" where
  "textCell P c = trim (js_String P (orElse c (VStr [])))"

definition skipRow :: "platform \<Rightarrow> jsobj \<Rightarrow> bool" where
  "skipRow P row =
     (\<not> truthy (getProp row ''B'')
      \<or> js_includes (toLowerCase (js_String P (getProp row ''B''))) ''doc'')"

text \<open>
  One pass of the loop body of \<open>parseExcelFile\<close>: \<open>Inr None\<close> for a row that is
  skipped, \<open>Inr (Some order)\<close> for a row that is mapped, \<open>Inl\<close> when the body throws.
  The mapped order also keeps the row itself (\<open>_raw\<close>), which nothing in this file
  reads and which is left out here.
\<close>

definition parseExcelRow :: "platform \<Rightarrow> jsobj \<Rightarrow> error + Order option" where
  "parseExcelRow P row =
     (if skipRow P row then Inr None
      else
        (let docNr' = trim (js_String P (getProp row ''B''));
             itemNr' = parseNumber P (getProp row ''F'')
         in case jsonCell P (getProp row ''AH'') of Inl e \<Rightarrow> Inl e | Inr obs \<Rightarrow>
            (case jsonCell P (getProp row ''AI'') of Inl e \<Rightarrow> Inl e | Inr prev \<Rightarrow>
            (case jsonCell P (getProp row ''AJ'') of Inl e \<Rightarrow> Inl e | Inr stops \<Rightarrow>
            (case (if truthy prev then hydrateDates P prev else Inr prev) of
               Inl e \<Rightarrow> Inl e
             | Inr prev' \<Rightarrow>
               Inr (Some
                 \<lparr> order_id = orElse (getProp row ''A'')
                                (VStr (docNr' @ ''-'' @ numToString P itemNr')),
                   docNr = docNr',
                   clientCode = textCell P (orElse (getProp row ''AE'') (getProp row ''C'')),
                   clientName = textCell P (getProp row ''C''),
                   comercial = textCell P (orElse (getProp row ''AD'') (getProp row ''L'')),
                   issueDate = parseExcelDate P (getProp row ''D''),
                   requestedDate = parseExcelDate P (getProp row ''E''),
                   itemNr = itemNr',
                   po = textCell P (getProp row ''G''),
                   articleCode = textCell P (getProp row ''H''),
                   reference = textCell P (getProp row ''I''),
                   colorCode = textCell P (getProp row ''J''),
                   colorDesc = textCell P (getProp row ''K''),
                   sizeTxt = textCell P (getProp row ''L''),
                   family = textCell P (getProp row ''M''),
                   sizeDesc = textCell P (getProp row ''N''),
                   ean = textCell P (getProp row ''O''),
                   qtyRequested = parseNumber P (getProp row ''P''),
                   dataTec = parseExcelDate P (getProp row ''Q''),
                   felpoCruQty = parseNumber P (getProp row ''R''),
                   felpoCruDate = parseExcelDate P (getProp row ''S''),
                   tinturariaQty = parseNumber P (getProp row ''T''),
                   tinturariaDate = parseExcelDate P (getProp row ''U''),
                   confRoupoesQty = parseNumber P (getProp row ''V''),
                   confFelposQty = parseNumber P (getProp row ''W''),
                   confDate = parseExcelDate P (getProp row ''X''),
                   embAcabQty = parseNumber P (getProp row ''Y''),
                   armExpDate = parseExcelDate P (getProp row ''Z''),
                   stockCxQty = parseNumber P (getProp row ''AA''),
                   qtyBilled = parseNumber P (getProp row ''AB''),
                   qtyOpen = parseNumber P (getProp row ''AC''),
                   dataEnt = parseExcelDate P (getProp row ''E''),
                   priority = (if truthy (getProp row ''AF'')
                               then parseInt P (getProp row ''AF'') else Fin 0),
                   isManual = flagCell (getProp row ''AG''),
                   sectorObservations = obs,
                   sectorPredictedDates = prev',
                   sectorStopReasons = stops,
                   dataEspecial = parseExcelDate P (getProp row ''AK''),
                   dataPrinter = parseExcelDate P (getProp row ''AL''),
                   dataDebuxo = parseExcelDate P (getProp row ''AM''),
                   dataAmostras = parseExcelDate P (getProp row ''AN''),
                   dataBordados = parseExcelDate P (getProp row ''AO''),
                   isArchived = flagCell (getProp row ''AP''),
                   archivedAt = parseExcelDate P (getProp row ''AQ''),
                   archivedBy = orElse (getProp row ''AR'') VNull \<rparr>))))))"


text \<open>The loop over the data rows: the first row that throws ends the import.\<close>

fun parseExcelRows :: "platform \<Rightarrow> jsobj list \<Rightarrow> error + Order list" where
  "parseExcelRows P [] = Inr []"
| "parseExcelRows P (row # rows) =
     (case parseExcelRow P row of
        Inl e \<Rightarrow> Inl e
      | Inr r \<Rightarrow>
          (case parseExcelRows P rows of
             Inl e \<Rightarrow> Inl e
           | Inr os \<Rightarrow> Inr (case r of None \<Rightarrow> os | Some ord \<Rightarrow> ord # os)))"

text \<open>\<open>parseExcelFile\<close>: the sheet \<open>Dados_BD\<close> if there is one, else the first sheet;
  the first row is the header row; whatever is thrown is reported as the one error
  of the spreadsheet path.\<close>

definition selectSheet :: "(string \<times> jsobj list) list \<Rightarrow> jsobj list" where
  "selectSheet sheets =
     (case map_of sheets ''Dados_BD'' of
        Some rows \<Rightarrow> rows
      | None \<Rightarrow> (case sheets of [] \<Rightarrow> [] | (n, rows) # _ \<Rightarrow> rows))"

definition parseExcelFile :: "platform \<Rightarrow> xlsx_file \<Rightarrow> error + (Order list \<times> jsobj)" where
  "parseExcelFile P file =
     (case file of
        Undecodable \<Rightarrow> Inl ErroProcessarExcel
      | Workbook sheets \<Rightarrow>
          (case selectSheet sheets of
             [] \<Rightarrow> Inr ([], [])
           | extractedHeaders # jsonData \<Rightarrow>
               (case parseExcelRows P jsonData of
                  Inl e \<Rightarrow> Inl ErroProcessarExcel
                | Inr mappedOrders \<Rightarrow> Inr (mappedOrders, extractedHeaders))))"

section \<open>Spreadsheet export\<close>


definition flagNum :: "bool \<Rightarrow> jsv" where
  "flagNum b = VNum (Fin (if b then 1 else 0))"

definition jsonText :: "platform \<Rightarrow> jsv \<Rightarrow> jsv" where
  "jsonText P m = VStr (jsonStringify P (orElse m (VObj [])))"


definition headerRow :: jsobj where
  "headerRow =
     [(''A'', VStr (''ID Interno'')),
      (''B'', VStr (''Nr. Documento'')),
      (''C'', VStr (''Cliente'')),
      (''D'', VStr (''Data Emiss'' @ [CHR 0xE3] @ ''o'')),
      (''E'', VStr (''Data Entrega'')),
      (''F'', VStr (''Item'')),
      (''G'', VStr (''PO'')),
      (''H'', VStr (''Artigo'')),
      (''I'', VStr (''Refer'' @ [CHR 0xEA] @ ''ncia'')),
      (''J'', VStr (''C'' @ [CHR 0xF3] @ ''d. Cor'')),
      (''K'', VStr (''Cor'')),
      (''L'', VStr (''Tamanho'')),
      (''M'', VStr (''Fam'' @ [CHR 0xED] @ ''lia'')),
      (''N'', VStr (''Desc. Tamanho'')),
      (''O'', VStr (''EAN'')),
      (''P'', VStr (''Qtd. Pedida'')),
      (''Q'', VStr (''Data Tecelagem'')),
      (''R'', VStr (''Qtd. Felpo Cru'')),
      (''S'', VStr (''Data Felpo Cru'')),
      (''T'', VStr (''Qtd. Tinturaria'')),
      (''U'', VStr (''Data Tinturaria'')),
      (''V'', VStr (''Qtd. Conf. Roup'' @ [CHR 0xF5] @ ''es'')),
      (''W'', VStr (''Qtd. Conf. Felpos'')),
      (''X'', VStr (''Data Confec'' @ [CHR 0xE7] @ [CHR 0xE3] @ ''o'')),
      (''Y'', VStr (''Qtd. Embalagem'')),
      (''Z'', VStr (''Data Prev. Armaz'' @ [CHR 0xE9] @ ''m'')),
      (''AA'', VStr (''Qtd. Stock Caixa'')),
      (''AB'', VStr (''Qtd. Faturada'')),
      (''AC'', VStr (''Qtd. Em Aberto'')),
      (''AD'', VStr (''Comercial'')),
      (''AE'', VStr (''C'' @ [CHR 0xF3] @ ''d. Cliente'')),
      (''AF'', VStr (''Prioridade'')),
      (''AG'', VStr (''Conf. Manual'')),
      (''AH'', VStr (''Obs Setores'')),
      (''AI'', VStr (''Datas Previstas'')),
      (''AJ'', VStr (''Motivos Paragem'')),
      (''AK'', VStr (''Data Especial'')),
      (''AL'', VStr (''Data Printer'')),
      (''AM'', VStr (''Data Debuxo'')),
      (''AN'', VStr (''Data Amostras'')),
      (''AO'', VStr (''Data Bordados'')),
      (''AP'', VStr (''Arquivado'')),
      (''AQ'', VStr (''Data Arquivado'')),
      (''AR'', VStr (''Arquivado Por''))]"





section \<open>Embedded-database import\<close>

text \<open>
  A database file as the SQL engine shows it: the rows of the table \<open>headers\<close> if there
  is one, and the column names and rows of the table \<open>orders\<close> if there is one. A stored
  value is \<open>NULL\<close> (\<open>VNull\<close>), a number or a text. Bytes that are no database are
  \<open>NotADatabase\<close>.
\<close>

datatype sqlite_file =
    NotADatabase
  | Database "(jsv \<times> jsv) list option" "(string list \<times> jsv list list) option"

definition dateFields :: "string list" where
  "dateFields =
     [''issueDate'', ''requestedDate'', ''dataTec'', ''felpoCruDate'', ''tinturariaDate'',
      ''confDate'', ''armExpDate'', ''dataEnt'', ''dataEspecial'', ''dataPrinter'',
      ''dataDebuxo'', ''dataAmostras'', ''dataBordados'']"

text \<open>\<open>if (obj[f]) obj[f] = new Date(obj[f])\<close>\<close>

definition hydrateField :: "platform \<Rightarrow> jsobj \<Rightarrow> string \<Rightarrow> jsobj" where
  "hydrateField P obj f =
     (if truthy (getProp obj f) then setProp f (VDate (newDate P (getProp obj f))) obj else obj)"

text \<open>\<open>if (obj[f]) { try { obj[f] = JSON.parse(obj[f]) } catch { obj[f] = {} } }\<close>\<close>

definition parseJsonField :: "platform \<Rightarrow> jsobj \<Rightarrow> string \<Rightarrow> jsobj" where
  "parseJsonField P obj f =
     (if truthy (getProp obj f)
      then setProp f (case jsonParse P (js_String P (getProp obj f)) of
                        None \<Rightarrow> VObj []
                      | Some v \<Rightarrow> v) obj
      else obj)"

text \<open>The same with the hydration of the dates inside the \<open>try\<close>.\<close>

definition parseDatesField :: "platform \<Rightarrow> jsobj \<Rightarrow> string \<Rightarrow> jsobj" where
  "parseDatesField P obj f =
     (if truthy (getProp obj f)
      then setProp f (case jsonParse P (js_String P (getProp obj f)) of
                        None \<Rightarrow> VObj []
                      | Some parsed \<Rightarrow>
                          (case hydrateDates P parsed of Inl e \<Rightarrow> VObj [] | Inr h \<Rightarrow> h)) obj
      else obj)"

definition defaultField :: "jsobj \<Rightarrow> string \<Rightarrow> jsv \<Rightarrow> jsobj" where
  "defaultField obj f d = (if \<not> truthy (getProp obj f) then setProp f d obj else obj)"

definition flagField :: "jsobj \<Rightarrow> string \<Rightarrow> jsobj" where
  "flagField obj f = setProp f (VBool (flagCell (getProp obj f))) obj"

text \<open>The callback of \<open>values.map\<close> in \<open>parseSQLiteFile\<close>: one row of the table
  \<open>orders\<close> becomes one object.\<close>

definition rowObject :: "string list \<Rightarrow> jsv list \<Rightarrow> jsobj" where
  "rowObject columns row = foldl (\<lambda>obj (col, v). setProp col v obj) [] (zip columns row)"

definition sqliteRow :: "platform \<Rightarrow> string list \<Rightarrow> jsv list \<Rightarrow> jsobj" where
  "sqliteRow P columns row =
     (let obj0 = rowObject columns row;
          obj1 = foldl (hydrateField P) obj0 dateFields;
          obj2 = parseJsonField P obj1 ''sectorObservations'';
          obj3 = parseDatesField P obj2 ''sectorPredictedDates'';
          obj4 = parseJsonField P obj3 ''sectorStopReasons'';
          obj5 = defaultField obj4 ''priority'' (VNum (Fin 0));
          obj6 = defaultField obj5 ''comercial'' (VStr []);
          obj7 = flagField obj6 ''isManual'';
          obj8 = flagField obj7 ''isArchived''
      in hydrateField P obj8 ''archivedAt'')"

text \<open>\<open>parseSQLiteFile\<close>: a missing table \<open>headers\<close> gives the empty mapping; a missing
  table \<open>orders\<close>, or bytes that are no database, make the query throw.\<close>

definition readHeaders :: "platform \<Rightarrow> (jsv \<times> jsv) list option \<Rightarrow> jsobj" where
  "readHeaders P t =
     (case t of
        None \<Rightarrow> []
      | Some rows \<Rightarrow> foldl (\<lambda>h (k, v). setProp (js_String P k) v h) [] rows)"

definition parseSQLiteFile :: "platform \<Rightarrow> sqlite_file \<Rightarrow> error + (jsobj list \<times> jsobj)" where
  "parseSQLiteFile P file =
     (case file of
        NotADatabase \<Rightarrow> Inl DatabaseError
      | Database hs os \<Rightarrow>
          (case os of
             None \<Rightarrow> Inl DatabaseError
           | Some (columns, values) \<Rightarrow>
               if values = [] then Inr ([], readHeaders P hs)
               else Inr (map (sqliteRow P columns) values, readHeaders P hs)))"

section \<open>Embedded-database export\<close>

text \<open>
  Binding a value to a statement: strings, numbers, booleans and \<open>null\<close> are bound (NaN
  is stored as \<open>NULL\<close>, an array as a blob); \<open>undefined\<close>, a date and any other object
  make the binding throw. A column declared \<open>TEXT\<close> stores a number as its text.
\<close>

definition bindValue :: "jsv \<Rightarrow> error + jsv" where
  "bindValue v =
     (case v of
        VStr s \<Rightarrow> Inr (VStr s)
      | VNum n \<Rightarrow> Inr (if n = NaN then VNull else VNum n)
      | VBool b \<Rightarrow> Inr (VNum (Fin (if b then 1 else 0)))
      | VNull \<Rightarrow> Inr VNull
      | VArr xs \<Rightarrow> Inr (VArr xs)
      | _ \<Rightarrow> Inl DatabaseError)"

definition textCol :: "platform \<Rightarrow> jsv \<Rightarrow> error + jsv" where
  "textCol P v =
     (case bindValue v of
        Inl e \<Rightarrow> Inl e
      | Inr (VNum n) \<Rightarrow> Inr (VStr (sqliteNumText P n))
      | Inr x \<Rightarrow> Inr x)"

definition numCol :: "jsnum \<Rightarrow> jsv" where
  "numCol n = (if n = NaN then VNull else VNum n)"

text \<open>\<open>d ? d.getTime() : null\<close>\<close>

definition dateCol :: "jsdate option \<Rightarrow> jsv" where
  "dateCol d = (case d of None \<Rightarrow> VNull | Some x \<Rightarrow> numCol (getTime x))"

definition orderColumns :: "string list" where
  "orderColumns =
     [''id'', ''docNr'', ''clientCode'', ''clientName'', ''comercial'', ''issueDate'',
      ''requestedDate'', ''itemNr'', ''po'', ''articleCode'', ''reference'', ''colorCode'',
      ''colorDesc'', ''size'', ''family'', ''sizeDesc'', ''ean'', ''qtyRequested'',
      ''dataTec'', ''felpoCruQty'', ''felpoCruDate'', ''tinturariaQty'', ''tinturariaDate'',
      ''confRoupoesQty'', ''confFelposQty'', ''confDate'', ''embAcabQty'', ''armExpDate'',
      ''stockCxQty'', ''dataEnt'', ''qtyBilled'', ''qtyOpen'', ''sectorObservations'',
      ''sectorPredictedDates'', ''priority'', ''isManual'', ''sectorStopReasons'',
      ''dataEspecial'', ''dataPrinter'', ''dataDebuxo'', ''dataAmostras'', ''dataBordados'',
      ''isArchived'', ''archivedAt'', ''archivedBy'']"

fun sequenceSum :: "(error + 'a) list \<Rightarrow> error + 'a list" where
  "sequenceSum [] = Inr []"
| "sequenceSum (x # xs) =
     (case x of
        Inl e \<Rightarrow> Inl e
      | Inr v \<Rightarrow> (case sequenceSum xs of Inl e \<Rightarrow> Inl e | Inr vs \<Rightarrow> Inr (v # vs)))"

text \<open>The 45 values of \<open>stmt.run\<close> for one order, as the table stores them.\<close>

definition sqliteValues :: "platform \<Rightarrow> Order \<Rightarrow> error + jsv list" where
  "sqliteValues P ord =
     sequenceSum
     [textCol P (order_id ord),
      Inr (VStr (docNr ord)),
      Inr (VStr (clientCode ord)),
      Inr (VStr (clientName ord)),
      Inr (VStr (comercial ord)),
      Inr (dateCol (issueDate ord)),
      Inr (dateCol (requestedDate ord)),
      Inr (numCol (itemNr ord)),
      Inr (VStr (po ord)),
      Inr (VStr (articleCode ord)),
      Inr (VStr (reference ord)),
      Inr (VStr (colorCode ord)),
      Inr (VStr (colorDesc ord)),
      Inr (VStr (sizeTxt ord)),
      Inr (VStr (family ord)),
      Inr (VStr (sizeDesc ord)),
      Inr (VStr (ean ord)),
      Inr (numCol (qtyRequested ord)),
      Inr (dateCol (dataTec ord)),
      Inr (numCol (felpoCruQty ord)),
      Inr (dateCol (felpoCruDate ord)),
      Inr (numCol (tinturariaQty ord)),
      Inr (dateCol (tinturariaDate ord)),
      Inr (numCol (confRoupoesQty ord)),
      Inr (numCol (confFelposQty ord)),
      Inr (dateCol (confDate ord)),
      Inr (numCol (embAcabQty ord)),
      Inr (dateCol (armExpDate ord)),
      Inr (numCol (stockCxQty ord)),
      Inr (dateCol (dataEnt ord)),
      Inr (numCol (qtyBilled ord)),
      Inr (numCol (qtyOpen ord)),
      Inr (jsonText P (sectorObservations ord)),
      Inr (jsonText P (sectorPredictedDates ord)),
      Inr (numCol (if truthy (VNum (priority ord)) then priority ord else Fin 0)),
      Inr (flagNum (isManual ord)),
      Inr (jsonText P (sectorStopReasons ord)),
      Inr (dateCol (dataEspecial ord)),
      Inr (dateCol (dataPrinter ord)),
      Inr (dateCol (dataDebuxo ord)),
      Inr (dateCol (dataAmostras ord)),
      Inr (dateCol (dataBordados ord)),
      Inr (flagNum (isArchived ord)),
      Inr (dateCol (archivedAt ord)),
      textCol P (orElse (archivedBy ord) VNull)]"

text \<open>The inserts in order. \<open>id\<close> is the primary key: a second row with a stored
  \<open>id\<close> that is already there (and not \<open>NULL\<close>) is refused, and the export throws.\<close>

fun insertOrders :: "platform \<Rightarrow> jsv list list \<Rightarrow> Order list \<Rightarrow> error + jsv list list" where
  "insertOrders P rows [] = Inr rows"
| "insertOrders P rows (ord # ords) =
     (case sqliteValues P ord of
        Inl e \<Rightarrow> Inl e
      | Inr vs \<Rightarrow>
          if hd vs \<noteq> VNull \<and> hd vs \<in> set (map hd rows) then Inl DatabaseError
          else insertOrders P (rows @ [vs]) ords)"

fun insertHeaders :: "platform \<Rightarrow> jsobj \<Rightarrow> error + (jsv \<times> jsv) list" where
  "insertHeaders P [] = Inr []"
| "insertHeaders P ((k, v) # kvs) =
     (case textCol P v of
        Inl e \<Rightarrow> Inl e
      | Inr v' \<Rightarrow>
          (case insertHeaders P kvs of Inl e \<Rightarrow> Inl e | Inr rows \<Rightarrow> Inr ((VStr k, v') # rows)))"

text \<open>\<open>exportOrdersToSQLite\<close>: the database that is written (file name and directory
  handle play no part in its contents); \<open>Inl\<close> when a statement throws, and then no file
  is written.\<close>

definition exportOrdersToSQLite :: "platform \<Rightarrow> Order list \<Rightarrow> jsobj \<Rightarrow> error + sqlite_file" where
  "exportOrdersToSQLite P orders headers =
     (case insertHeaders P headers of
        Inl e \<Rightarrow> Inl e
      | Inr hs \<Rightarrow>
          (case insertOrders P [] orders of
             Inl e \<Rightarrow> Inl e
           | Inr rows \<Rightarrow> Inr (Database (Some hs) (Some (orderColumns, rows)))))"

text \<open>An order as the JavaScript object it is, its properties in the order of the
  columns of the table; a date that is \<open>null\<close> is \<open>VNull\<close>.\<close>

definition dateValue :: "jsdate option \<Rightarrow> jsv" where
  "dateValue d = (case d of None \<Rightarrow> VNull | Some x \<Rightarrow> VDate x)"

definition objOfOrder :: "Order \<Rightarrow> jsobj" where
  "objOfOrder ord =
     [(''id'', order_id ord),
      (''docNr'', VStr (docNr ord)),
      (''clientCode'', VStr (clientCode ord)),
      (''clientName'', VStr (clientName ord)),
      (''comercial'', VStr (comercial ord)),
      (''issueDate'', dateValue (issueDate ord)),
      (''requestedDate'', dateValue (requestedDate ord)),
      (''itemNr'', VNum (itemNr ord)),
      (''po'', VStr (po ord)),
      (''articleCode'', VStr (articleCode ord)),
      (''reference'', VStr (reference ord)),
      (''colorCode'', VStr (colorCode ord)),
      (''colorDesc'', VStr (colorDesc ord)),
      (''size'', VStr (sizeTxt ord)),
      (''family'', VStr (family ord)),
      (''sizeDesc'', VStr (sizeDesc ord)),
      (''ean'', VStr (ean ord)),
      (''qtyRequested'', VNum (qtyRequested ord)),
      (''dataTec'', dateValue (dataTec ord)),
      (''felpoCruQty'', VNum (felpoCruQty ord)),
      (''felpoCruDate'', dateValue (felpoCruDate ord)),
      (''tinturariaQty'', VNum (tinturariaQty ord)),
      (''tinturariaDate'', dateValue (tinturariaDate ord)),
      (''confRoupoesQty'', VNum (confRoupoesQty ord)),
      (''confFelposQty'', VNum (confFelposQty ord)),
      (''confDate'', dateValue (confDate ord)),
      (''embAcabQty'', VNum (embAcabQty ord)),
      (''armExpDate'', dateValue (armExpDate ord)),
      (''stockCxQty'', VNum (stockCxQty ord)),
      (''dataEnt'', dateValue (dataEnt ord)),
      (''qtyBilled'', VNum (qtyBilled ord)),
      (''qtyOpen'', VNum (qtyOpen ord)),
      (''sectorObservations'', sectorObservations ord),
      (''sectorPredictedDates'', sectorPredictedDates ord),
      (''priority'', VNum (priority ord)),
      (''isManual'', VBool (isManual ord)),
      (''sectorStopReasons'', sectorStopReasons ord),
      (''dataEspecial'', dateValue (dataEspecial ord)),
      (''dataPrinter'', dateValue (dataPrinter ord)),
      (''dataDebuxo'', dateValue (dataDebuxo ord)),
      (''dataAmostras'', dateValue (dataAmostras ord)),
      (''dataBordados'', dateValue (dataBordados ord)),
      (''isArchived'', VBool (isArchived ord)),
      (''archivedAt'', dateValue (archivedAt ord)),
      (''archivedBy'', archivedBy ord)]"

section \<open>Column registry and custom export\<close>

record ExportColumnDef =
  key :: string
  label :: string
  group :: string

definition ALL_EXPORT_COLUMNS :: "ExportColumnDef list" where
  "ALL_EXPORT_COLUMNS =
     [\<lparr> key = ''docNr'', label = ''Nr. Documento'', group = ''Identifica'' @ [CHR 0xE7] @ [CHR 0xE3] @ ''o'' \<rparr>,
      \<lparr> key = ''itemNr'', label = ''Item'', group = ''Identifica'' @ [CHR 0xE7] @ [CHR 0xE3] @ ''o'' \<rparr>,
      \<lparr> key = ''id'', label = ''ID Interno'', group = ''Identifica'' @ [CHR 0xE7] @ [CHR 0xE3] @ ''o'' \<rparr>,
      \<lparr> key = ''clientName'', label = ''Cliente'', group = ''Cliente'' \<rparr>,
      \<lparr> key = ''clientCode'', label = ''C'' @ [CHR 0xF3] @ ''d. Cliente'', group = ''Cliente'' \<rparr>,
      \<lparr> key = ''comercial'', label = ''Comercial'', group = ''Cliente'' \<rparr>,
      \<lparr> key = ''po'', label = ''PO'', group = ''Cliente'' \<rparr>,
      \<lparr> key = ''articleCode'', label = ''Artigo'', group = ''Artigo'' \<rparr>,
      \<lparr> key = ''reference'', label = ''Refer'' @ [CHR 0xEA] @ ''ncia'', group = ''Artigo'' \<rparr>,
      \<lparr> key = ''colorCode'', label = ''C'' @ [CHR 0xF3] @ ''d. Cor'', group = ''Artigo'' \<rparr>,
      \<lparr> key = ''colorDesc'', label = ''Cor'', group = ''Artigo'' \<rparr>,
      \<lparr> key = ''size'', label = ''Tamanho'', group = ''Artigo'' \<rparr>,
      \<lparr> key = ''sizeDesc'', label = ''Desc. Tamanho'', group = ''Artigo'' \<rparr>,
      \<lparr> key = ''family'', label = ''Fam'' @ [CHR 0xED] @ ''lia'', group = ''Artigo'' \<rparr>,
      \<lparr> key = ''ean'', label = ''EAN'', group = ''Artigo'' \<rparr>,
      \<lparr> key = ''qtyRequested'', label = ''Qtd. Pedida'', group = ''Quantidades'' \<rparr>,
      \<lparr> key = ''qtyBilled'', label = ''Qtd. Faturada'', group = ''Quantidades'' \<rparr>,
      \<lparr> key = ''qtyOpen'', label = ''Qtd. Em Aberto'', group = ''Quantidades'' \<rparr>,
      \<lparr> key = ''felpoCruQty'', label = ''Qtd. Felpo Cru'', group = ''Quantidades'' \<rparr>,
      \<lparr> key = ''tinturariaQty'', label = ''Qtd. Tinturaria'', group = ''Quantidades'' \<rparr>,
      \<lparr> key = ''confRoupoesQty'', label = ''Qtd. Conf. Roup'' @ [CHR 0xF5] @ ''es'', group = ''Quantidades'' \<rparr>,
      \<lparr> key = ''confFelposQty'', label = ''Qtd. Conf. Felpos'', group = ''Quantidades'' \<rparr>,
      \<lparr> key = ''embAcabQty'', label = ''Qtd. Embalagem'', group = ''Quantidades'' \<rparr>,
      \<lparr> key = ''stockCxQty'', label = ''Qtd. Stock Caixa'', group = ''Quantidades'' \<rparr>,
      \<lparr> key = ''issueDate'', label = ''Data Emiss'' @ [CHR 0xE3] @ ''o'', group = ''Datas'' \<rparr>,
      \<lparr> key = ''requestedDate'', label = ''Data Entrega Pedida'', group = ''Datas'' \<rparr>,
      \<lparr> key = ''dataEnt'', label = ''Data Entrada'', group = ''Datas'' \<rparr>,
      \<lparr> key = ''dataTec'', label = ''Data Tecelagem'', group = ''Datas'' \<rparr>,
      \<lparr> key = ''felpoCruDate'', label = ''Data Felpo Cru'', group = ''Datas'' \<rparr>,
      \<lparr> key = ''tinturariaDate'', label = ''Data Tinturaria'', group = ''Datas'' \<rparr>,
      \<lparr> key = ''confDate'', label = ''Data Confec'' @ [CHR 0xE7] @ [CHR 0xE3] @ ''o'', group = ''Datas'' \<rparr>,
      \<lparr> key = ''armExpDate'', label = ''Data Prev. Armaz'' @ [CHR 0xE9] @ ''m'', group = ''Datas'' \<rparr>,
      \<lparr> key = ''dataEspecial'', label = ''Data Especial'', group = ''Datas Especiais'' \<rparr>,
      \<lparr> key = ''dataPrinter'', label = ''Data Printer'', group = ''Datas Especiais'' \<rparr>,
      \<lparr> key = ''dataDebuxo'', label = ''Data Debuxo'', group = ''Datas Especiais'' \<rparr>,
      \<lparr> key = ''dataAmostras'', label = ''Data Amostras'', group = ''Datas Especiais'' \<rparr>,
      \<lparr> key = ''dataBordados'', label = ''Data Bordados'', group = ''Datas Especiais'' \<rparr>,
      \<lparr> key = ''estado'', label = ''Estado'', group = ''Estado / App'' \<rparr>,
      \<lparr> key = ''priority'', label = ''Prioridade'', group = ''Estado / App'' \<rparr>,
      \<lparr> key = ''isManual'', label = ''Conf. Manual'', group = ''Estado / App'' \<rparr>,
      \<lparr> key = ''isArchived'', label = ''Arquivado'', group = ''Estado / App'' \<rparr>,
      \<lparr> key = ''archivedAt'', label = ''Arquivado Em'', group = ''Estado / App'' \<rparr>,
      \<lparr> key = ''archivedBy'', label = ''Arquivado Por'', group = ''Estado / App'' \<rparr>,
      \<lparr> key = ''obs_tecelagem'', label = ''Obs. Tecelagem'', group = ''Observa'' @ [CHR 0xE7] @ [CHR 0xF5] @ ''es'' \<rparr>,
      \<lparr> key = ''obs_felpo_cru'', label = ''Obs. Felpo Cru'', group = ''Observa'' @ [CHR 0xE7] @ [CHR 0xF5] @ ''es'' \<rparr>,
      \<lparr> key = ''obs_tinturaria'', label = ''Obs. Tinturaria'', group = ''Observa'' @ [CHR 0xE7] @ [CHR 0xF5] @ ''es'' \<rparr>,
      \<lparr> key = ''obs_confeccao'', label = ''Obs. Confec'' @ [CHR 0xE7] @ [CHR 0xE3] @ ''o'', group = ''Observa'' @ [CHR 0xE7] @ [CHR 0xF5] @ ''es'' \<rparr>,
      \<lparr> key = ''obs_embalagem'', label = ''Obs. Embalagem'', group = ''Observa'' @ [CHR 0xE7] @ [CHR 0xF5] @ ''es'' \<rparr>,
      \<lparr> key = ''obs_expedicao'', label = ''Obs. Expedi'' @ [CHR 0xE7] @ [CHR 0xE3] @ ''o'', group = ''Observa'' @ [CHR 0xE7] @ [CHR 0xF5] @ ''es'' \<rparr>,
      \<lparr> key = ''prev_tecelagem'', label = ''Prev. Tecelagem'', group = ''Datas Previstas'' \<rparr>,
      \<lparr> key = ''prev_felpo_cru'', label = ''Prev. Felpo Cru'', group = ''Datas Previstas'' \<rparr>,
      \<lparr> key = ''prev_tinturaria'', label = ''Prev. Tinturaria'', group = ''Datas Previstas'' \<rparr>,
      \<lparr> key = ''prev_confeccao'', label = ''Prev. Confec'' @ [CHR 0xE7] @ [CHR 0xE3] @ ''o'', group = ''Datas Previstas'' \<rparr>,
      \<lparr> key = ''prev_embalagem'', label = ''Prev. Embalagem'', group = ''Datas Previstas'' \<rparr>,
      \<lparr> key = ''prev_expedicao'', label = ''Prev. Expedi'' @ [CHR 0xE7] @ [CHR 0xE3] @ ''o'', group = ''Datas Previstas'' \<rparr>,
      \<lparr> key = ''stop_tecelagem'', label = ''Motivo Tecelagem'', group = ''Motivos de Paragem'' \<rparr>,
      \<lparr> key = ''stop_felpo_cru'', label = ''Motivo Felpo Cru'', group = ''Motivos de Paragem'' \<rparr>,
      \<lparr> key = ''stop_tinturaria'', label = ''Motivo Tinturaria'', group = ''Motivos de Paragem'' \<rparr>,
      \<lparr> key = ''stop_confeccao'', label = ''Motivo Confec'' @ [CHR 0xE7] @ [CHR 0xE3] @ ''o'', group = ''Motivos de Paragem'' \<rparr>,
      \<lparr> key = ''stop_embalagem'', label = ''Motivo Embalagem'', group = ''Motivos de Paragem'' \<rparr>,
      \<lparr> key = ''stop_expedicao'', label = ''Motivo Expedi'' @ [CHR 0xE7] @ [CHR 0xE3] @ ''o'', group = ''Motivos de Paragem'' \<rparr>]"

text \<open>The value of a column is a JavaScript value, or the state of the order for the
  computed column \<open>estado\<close> (the members of the enumeration are declared in
  \<open>types.ts\<close>).\<close>

datatype colval = StateVal OrderState | Val jsv

definition columnDateFields :: "string list" where
  "columnDateFields =
     [''issueDate'', ''requestedDate'', ''dataEnt'', ''dataTec'', ''felpoCruDate'',
      ''tinturariaDate'', ''confDate'', ''armExpDate'', ''dataEspecial'', ''dataPrinter'',
      ''dataDebuxo'', ''dataAmostras'', ''dataBordados'', ''archivedAt'']"

text \<open>\<open>m?.[k]\<close> for a property name \<open>k\<close> that is no index and no built-in property
  (the sector identifiers are none): only an object can have it.\<close>

definition propOf :: "jsv \<Rightarrow> string \<Rightarrow> jsv" where
  "propOf m k = (case m of VObj kvs \<Rightarrow> getProp kvs k | _ \<Rightarrow> VUndef)"

definition getColumnValue :: "platform \<Rightarrow> int \<Rightarrow> Order \<Rightarrow> string \<Rightarrow> colval" where
  "getColumnValue P clock ord k =
     (if k = ''estado'' then StateVal (getOrderState clock ord)
      else if k = ''priority'' then
        Val (VStr (if js_eq (priority ord) (Fin 1) then ''Alta''
                   else if js_eq (priority ord) (Fin 2) then ''M'' @ [CHR 0xE9] @ ''dia''
                   else if js_eq (priority ord) (Fin 3) then ''Baixa''
                   else []))
      else if k = ''isManual'' then
        Val (VStr (if isManual ord then ''Sim'' else ''N'' @ [CHR 0xE3] @ ''o''))
      else if k = ''isArchived'' then
        Val (VStr (if isArchived ord then ''Sim'' else ''N'' @ [CHR 0xE3] @ ''o''))
      else if startsWith k ''obs_'' then
        Val (orElse (propOf (sectorObservations ord) (drop 4 k)) (VStr []))
      else if startsWith k ''prev_'' then
        Val (VStr (formatDate P (propOf (sectorPredictedDates ord) (drop 5 k))))
      else if startsWith k ''stop_'' then
        Val (orElse (propOf (sectorStopReasons ord) (drop 5 k)) (VStr []))
      else
        (let val = getProp (objOfOrder ord) k
         in if k \<in> set columnDateFields \<and> truthy val then Val (VStr (formatDate P val))
            else Val (if val = VNull \<or> val = VUndef then VStr [] else val)))"

text \<open>\<open>ALL_EXPORT_COLUMNS.find(c => c.key === k)\<close>, and the selection with the keys
  that are not found filtered out.\<close>

definition findColumn :: "string \<Rightarrow> ExportColumnDef option" where
  "findColumn k = find (\<lambda>c. key c = k) ALL_EXPORT_COLUMNS"

definition resolveColumns :: "string list \<Rightarrow> ExportColumnDef list" where
  "resolveColumns selectedColumnKeys = List.map_filter findColumn selectedColumnKeys"

definition customRow ::
  "platform \<Rightarrow> int \<Rightarrow> ExportColumnDef list \<Rightarrow> Order \<Rightarrow> (string \<times> colval) list" where
  "customRow P clock colDefs ord =
     foldl (\<lambda>row col. setProp (label col) (getColumnValue P clock ord (key col)) row) [] colDefs"

text \<open>\<open>json_to_sheet\<close> makes one column for each property name, in the order in which
  the names first appear in the rows; its first row holds the names.\<close>

definition addKeys :: "string list \<Rightarrow> (string \<times> 'a) list \<Rightarrow> string list" where
  "addKeys hdr row = foldl (\<lambda>h k. if k \<in> set h then h else h @ [k]) hdr (map fst row)"

definition sheetHeader :: "(string \<times> 'a) list list \<Rightarrow> string list" where
  "sheetHeader rows = foldl addKeys [] rows"

text \<open>A list of names without its repetitions, each name at its first place.\<close>

definition firstOcc :: "string list \<Rightarrow> string list" where
  "firstOcc xs = foldl (\<lambda>h k. if k \<in> set h then h else h @ [k]) [] xs"

text \<open>\<open>exportCustomColumns\<close>: \<open>None\<close> when nothing is written, else the header of the
  sheet and its rows.\<close>

definition exportCustomColumns ::
  "platform \<Rightarrow> int \<Rightarrow> Order list \<Rightarrow> string list
     \<Rightarrow> (string list \<times> (string \<times> colval) list list) option" where
  "exportCustomColumns P clock orders selectedColumnKeys =
     (if orders = [] \<or> selectedColumnKeys = [] then None
      else
        (let colDefs = resolveColumns selectedColumnKeys;
             sheetData = map (customRow P clock colDefs) orders
         in Some (sheetHeader sheetData, sheetData)))"

section \<open>What a file carries back\<close>

text \<open>
  The import of one stored value, by the name of its column: what the callback of
  \<open>parseSQLiteFile\<close> does to the property of that name.
\<close>

definition hydrateVal :: "platform \<Rightarrow> jsv \<Rightarrow> jsv" where
  "hydrateVal P v = (if truthy v then VDate (newDate P v) else v)"

definition jsonVal :: "platform \<Rightarrow> jsv \<Rightarrow> jsv" where
  "jsonVal P v =
     (if truthy v
      then (case jsonParse P (js_String P v) of None \<Rightarrow> VObj [] | Some w \<Rightarrow> w)
      else v)"

definition datesVal :: "platform \<Rightarrow> jsv \<Rightarrow> jsv" where
  "datesVal P v =
     (if truthy v
      then (case jsonParse P (js_String P v) of
              None \<Rightarrow> VObj []
            | Some parsed \<Rightarrow> (case hydrateDates P parsed of Inl e \<Rightarrow> VObj [] | Inr h \<Rightarrow> h))
      else v)"

definition fieldImport :: "platform \<Rightarrow> string \<Rightarrow> jsv \<Rightarrow> jsv" where
  "fieldImport P k v =
     (if k = ''archivedAt'' \<or> k \<in> set dateFields then hydrateVal P v
      else if k = ''isArchived'' \<or> k = ''isManual'' then VBool (flagCell v)
      else if k = ''comercial'' then (if truthy v then v else VStr [])
      else if k = ''priority'' then (if truthy v then v else VNum (Fin 0))
      else if k = ''sectorStopReasons'' \<or> k = ''sectorObservations'' then jsonVal P v
      else if k = ''sectorPredictedDates'' then datesVal P v
      else v)"

text \<open>
  Conditions on an order under which a file carries it back. A date is a valid one and
  not the instant 0 of the epoch; a sector mapping is a value whose JSON text the
  platform reads back to the same value (for the predicted dates: after the hydration of
  its dates).
\<close>

definition okDate :: "jsdate option \<Rightarrow> bool" where
  "okDate d =
     (case d of
        None \<Rightarrow> True
      | Some InvalidDate \<Rightarrow> False
      | Some (DateMs t) \<Rightarrow> t \<noteq> 0 \<and> \<bar>t\<bar> \<le> 8640000000000000)"

definition isText :: "jsv \<Rightarrow> bool" where
  "isText v = (case v of VStr s \<Rightarrow> True | _ \<Rightarrow> False)"

definition isFin :: "jsnum \<Rightarrow> bool" where
  "isFin n = (case n of Fin x \<Rightarrow> True | _ \<Rightarrow> False)"

definition jsonReadsBack :: "platform \<Rightarrow> jsv \<Rightarrow> bool" where
  "jsonReadsBack P m =
     (jsonStringify P (orElse m (VObj [])) \<noteq> []
      \<and> jsonParse P (jsonStringify P (orElse m (VObj []))) = Some m)"

definition datesReadBack :: "platform \<Rightarrow> jsv \<Rightarrow> bool" where
  "datesReadBack P m =
     (jsonStringify P (orElse m (VObj [])) \<noteq> []
      \<and> (case jsonParse P (jsonStringify P (orElse m (VObj []))) of
            None \<Rightarrow> False
          | Some w \<Rightarrow> hydrateDates P w = Inr m))"

definition sqliteStable :: "platform \<Rightarrow> Order \<Rightarrow> bool" where
  "sqliteStable P ord =
     (isText (order_id ord)
      \<and> okDate (issueDate ord)
      \<and> okDate (requestedDate ord)
      \<and> okDate (dataTec ord)
      \<and> okDate (felpoCruDate ord)
      \<and> okDate (tinturariaDate ord)
      \<and> okDate (confDate ord)
      \<and> okDate (armExpDate ord)
      \<and> okDate (dataEnt ord)
      \<and> okDate (dataEspecial ord)
      \<and> okDate (dataPrinter ord)
      \<and> okDate (dataDebuxo ord)
      \<and> okDate (dataAmostras ord)
      \<and> okDate (dataBordados ord)
      \<and> okDate (archivedAt ord)
      \<and> itemNr ord \<noteq> NaN
      \<and> qtyRequested ord \<noteq> NaN
      \<and> felpoCruQty ord \<noteq> NaN
      \<and> tinturariaQty ord \<noteq> NaN
      \<and> confRoupoesQty ord \<noteq> NaN
      \<and> confFelposQty ord \<noteq> NaN
      \<and> embAcabQty ord \<noteq> NaN
      \<and> stockCxQty ord \<noteq> NaN
      \<and> qtyBilled ord \<noteq> NaN
      \<and> qtyOpen ord \<noteq> NaN
      \<and> priority ord \<noteq> NaN
      \<and> jsonReadsBack P (sectorObservations ord)
      \<and> datesReadBack P (sectorPredictedDates ord)
      \<and> jsonReadsBack P (sectorStopReasons ord)
      \<and> (archivedBy ord = VNull \<or> (isText (archivedBy ord) \<and> archivedBy ord \<noteq> VStr [])))"

definition sqliteRoundTrip ::
  "platform \<Rightarrow> Order list \<Rightarrow> jsobj \<Rightarrow> error + (jsobj list \<times> jsobj)" where
  "sqliteRoundTrip P orders headers =
     (case exportOrdersToSQLite P orders headers of
        Inl e \<Rightarrow> Inl e
      | Inr file \<Rightarrow> parseSQLiteFile P file)"



definition excelStable :: "platform \<Rightarrow> Order \<Rightarrow> bool" where
  "excelStable P ord =
     (isText (order_id ord) \<and> order_id ord \<noteq> VStr []
      \<and> docNr ord \<noteq> []
      \<and> \<not> js_includes (toLowerCase (docNr ord)) ''doc''
      \<and> trim (docNr ord) = docNr ord
      \<and> trim (clientCode ord) = clientCode ord
      \<and> trim (clientName ord) = clientName ord
      \<and> trim (comercial ord) = comercial ord
      \<and> trim (po ord) = po ord
      \<and> trim (articleCode ord) = articleCode ord
      \<and> trim (reference ord) = reference ord
      \<and> trim (colorCode ord) = colorCode ord
      \<and> trim (colorDesc ord) = colorDesc ord
      \<and> trim (sizeTxt ord) = sizeTxt ord
      \<and> trim (family ord) = family ord
      \<and> trim (sizeDesc ord) = sizeDesc ord
      \<and> trim (ean ord) = ean ord
      \<and> (comercial ord = [] \<longrightarrow> sizeTxt ord = [])
      \<and> (clientCode ord = [] \<longrightarrow> clientName ord = [])
      \<and> isFin (itemNr ord)
      \<and> isFin (qtyRequested ord)
      \<and> isFin (felpoCruQty ord)
      \<and> isFin (tinturariaQty ord)
      \<and> isFin (confRoupoesQty ord)
      \<and> isFin (confFelposQty ord)
      \<and> isFin (embAcabQty ord)
      \<and> isFin (stockCxQty ord)
      \<and> isFin (qtyBilled ord)
      \<and> isFin (qtyOpen ord)
      \<and> (priority ord = Fin 0
           \<or> (isFin (priority ord) \<and> parseInt P (VNum (priority ord)) = priority ord))
      \<and> jsonReadsBack P (sectorObservations ord)
      \<and> datesReadBack P (sectorPredictedDates ord)
      \<and> jsonReadsBack P (sectorStopReasons ord)
      \<and> (archivedBy ord = VNull \<or> (isText (archivedBy ord) \<and> archivedBy ord \<noteq> VStr [])))"


section \<open>A platform for the examples\<close>

text \<open>
  The examples below are evaluated on one platform. Its number rendering is the decimal
  one (exact for integers, which is all the examples use); its JSON and date functions
  are given on the values of the examples, where they agree with JavaScript:
  \<open>JSON.stringify({tecelagem: "ok"})\<close>, the ISO text of 15 January 2024 and so on,
  and \<open>JSON.parse("{")\<close> throws.
\<close>

fun showNat :: "nat \<Rightarrow> string" where
  "showNat n = (if n < 10 then [char_of (48 + n)] else showNat (n div 10) @ [char_of (48 + n mod 10)])"

fun fracDigits :: "nat \<Rightarrow> rat \<Rightarrow> string" where
  "fracDigits 0 r = []"
| "fracDigits (Suc k) r =
     (if r = 0 then []
      else char_of (48 + nat \<lfloor>r * 10\<rfloor>) # fracDigits k (r * 10 - of_int \<lfloor>r * 10\<rfloor>))"

definition showNum :: "jsnum \<Rightarrow> string" where
  "showNum n =
     (case n of
        NaN \<Rightarrow> ''NaN''
      | PosInf \<Rightarrow> ''Infinity''
      | NegInf \<Rightarrow> ''-Infinity''
      | Fin x \<Rightarrow>
          (if x < 0 then ''-'' else []) @ showNat (nat \<lfloor>\<bar>x\<bar>\<rfloor>)
          @ (if \<bar>x\<bar> = of_int \<lfloor>\<bar>x\<bar>\<rfloor> then []
             else ''.'' @ fracDigits 17 (\<bar>x\<bar> - of_int \<lfloor>\<bar>x\<bar>\<rfloor>)))"

definition jan15 :: int where
  "jan15 = 1705276800000"

definition jan16 :: int where
  "jan16 = 1705363200000"

text \<open>
  Modelled from the spec: \<open>formatDate\<close> and \<open>parseExcelDate\<close> of
  \<open>utils/formatters\<close> are missing from the sources. The specification says that
  dates are written as display strings, that a date value passes through
  \<open>parseExcelDate\<close>, that a serial number is a date of the 1900 date system, and that
  what cannot be parsed is \<open>null\<close>. Here the pair has the precision of a day and
  knows 15 and 16 January 2024; serial numbers count days from 30 December 1899.
\<close>

definition samplePlatform :: platform where
  "samplePlatform =
     \<lparr> numToString = showNum,
       dateToString = (\<lambda>d. if d = DateMs jan15
                            then ''Mon Jan 15 2024 00:00:00 GMT+0000 (Coordinated Universal Time)''
                            else ''Invalid Date''),
       dateParse = (\<lambda>s. if s = ''2024-01-15T00:00:00.000Z'' then DateMs jan15 else InvalidDate),
       jsonParse = (\<lambda>s. if s = ''{}'' then Some (VObj [])
                         else if s = (''{'' @ [CHR 0x22] @ ''tecelagem'' @ [CHR 0x22] @ '':'' @ [CHR 0x22] @ ''ok'' @ [CHR 0x22] @ ''}'') then Some (VObj [(''tecelagem'', VStr ''ok'')])
                         else if s = (''{'' @ [CHR 0x22] @ ''tinturaria'' @ [CHR 0x22] @ '':'' @ [CHR 0x22] @ ''2024-01-15T00:00:00.000Z'' @ [CHR 0x22] @ ''}'')
                         then Some (VObj [(''tinturaria'', VStr ''2024-01-15T00:00:00.000Z'')])
                         else if s = ''null'' then Some VNull
                         else None),
       jsonStringify = (\<lambda>v. if v = VObj [(''tecelagem'', VStr ''ok'')] then (''{'' @ [CHR 0x22] @ ''tecelagem'' @ [CHR 0x22] @ '':'' @ [CHR 0x22] @ ''ok'' @ [CHR 0x22] @ ''}'')
                             else if v = VObj [(''tinturaria'', VDate (DateMs jan15))] then (''{'' @ [CHR 0x22] @ ''tinturaria'' @ [CHR 0x22] @ '':'' @ [CHR 0x22] @ ''2024-01-15T00:00:00.000Z'' @ [CHR 0x22] @ ''}'')
                             else ''{}''),
       sqliteNumText = showNum,
       parseExcelDate = (\<lambda>v. case v of
                                VDate d \<Rightarrow> Some d
                              | VStr s \<Rightarrow> if s = ''15/01/2024'' then Some (DateMs jan15)
                                          else if s = ''16/01/2024'' then Some (DateMs jan16)
                                          else None
                              | VNum (Fin x) \<Rightarrow> Some (DateMs \<lfloor>(x - 25569) * 86400000\<rfloor>)
                              | _ \<Rightarrow> None),
       formatDate = (\<lambda>v. case v of
                            VDate (DateMs t) \<Rightarrow> if t div msPerDay = 19737 then ''15/01/2024''
                                                else if t div msPerDay = 19738 then ''16/01/2024''
                                                else []
                          | _ \<Rightarrow> []) \<rparr>"

section \<open>A blank order for examples\<close>

definition blankOrder :: Order where
  "blankOrder =
     \<lparr> order_id = VStr ''o1'', docNr = ''ENC-1'', clientCode = ''C1'', clientName = ''X'',
       comercial = ''K'', issueDate = None, requestedDate = None, itemNr = Fin 1, po = [],
       articleCode = [], reference = [], colorCode = [], colorDesc = [], sizeTxt = ''L'',
       family = [], sizeDesc = [], ean = [], qtyRequested = Fin 0, dataTec = None,
       felpoCruQty = Fin 0, felpoCruDate = None, tinturariaQty = Fin 0, tinturariaDate = None,
       confRoupoesQty = Fin 0, confFelposQty = Fin 0, confDate = None, embAcabQty = Fin 0,
       armExpDate = None, stockCxQty = Fin 0, qtyBilled = Fin 0, qtyOpen = Fin 0,
       dataEnt = None, priority = Fin 0, isManual = False, sectorObservations = VObj [],
       sectorPredictedDates = VObj [], sectorStopReasons = VObj [], dataEspecial = None,
       dataPrinter = None, dataDebuxo = None, dataAmostras = None, dataBordados = None,
       isArchived = False, archivedAt = None, archivedBy = VNull \<rparr>"

section \<open>Properties of the state machine\<close>

lemma startOfDay_le: "startOfDay t \<le> t"
  by (simp add: startOfDay_def msPerDay_def)

lemma startOfDay_gt: "t - msPerDay < startOfDay t"
  by (simp add: startOfDay_def msPerDay_def)

lemma isPast_DateMs: "isPast now (Some (DateMs t)) = (t < now)"
  by (simp add: isPast_def date_lt_def)

text \<open>
  C4. An order with \<open>qtyOpen = 0\<close> is COMPLETED whatever its other fields are, and so is
  an order with \<open>qtyRequested > 0\<close> and \<open>stockCxQty >= qtyRequested\<close>; the completion
  check comes first, so this holds also when a lateness condition holds.
\<close>

theorem getOrderState_completed:
  "(qtyOpen ord = Fin 0 \<longrightarrow> getOrderState clock ord = COMPLETED)
   \<and> (js_gt (qtyRequested ord) (Fin 0) \<and> js_ge (stockCxQty ord) (qtyRequested ord)
        \<longrightarrow> getOrderState clock ord = COMPLETED)
   \<and> (isCompleted ord \<and> lateConditions (startOfDay clock) ord
        \<longrightarrow> getOrderState clock ord = COMPLETED)"
  by (simp add: getOrderState_def isCompleted_def)

theorem getOrderState_completed_witness:
  "qtyOpen (blankOrder\<lparr>requestedDate := Some (DateMs 0), qtyRequested := Fin 5,
                        dataTec := Some (DateMs 0)\<rparr>) = Fin 0
   \<and> lateConditions (startOfDay 1000000000000)
        (blankOrder\<lparr>requestedDate := Some (DateMs 0), qtyRequested := Fin 5,
                     dataTec := Some (DateMs 0)\<rparr>)
   \<and> getOrderState 1000000000000
        (blankOrder\<lparr>requestedDate := Some (DateMs 0), qtyRequested := Fin 5,
                     dataTec := Some (DateMs 0)\<rparr>) = COMPLETED
   \<and> js_gt (qtyRequested (blankOrder\<lparr>qtyRequested := Fin 5, stockCxQty := Fin 7,
                                        qtyOpen := Fin 5\<rparr>)) (Fin 0)
   \<and> js_ge (stockCxQty (blankOrder\<lparr>qtyRequested := Fin 5, stockCxQty := Fin 7,
                                      qtyOpen := Fin 5\<rparr>)) (Fin 5)
   \<and> getOrderState 1000000000000
        (blankOrder\<lparr>qtyRequested := Fin 5, stockCxQty := Fin 7, qtyOpen := Fin 5\<rparr>)
       = COMPLETED"
  using getOrderState_completed
          [of "blankOrder\<lparr>requestedDate := Some (DateMs 0), qtyRequested := Fin 5,
                            dataTec := Some (DateMs 0)\<rparr>" 1000000000000]
        getOrderState_completed
          [of "blankOrder\<lparr>qtyRequested := Fin 5, stockCxQty := Fin 7, qtyOpen := Fin 5\<rparr>"
              1000000000000]
  by (simp add: blankOrder_def lateConditions_def isPast_DateMs startOfDay_def msPerDay_def
        js_gt_def js_ge_def js_le_def isCompleted_def)



text \<open>
  C6. For every sector of the closed set, \<open>getSectorState\<close> reads the sector's quantity
  (weaving and raw terry both \<open>felpoCruQty\<close>, confection the sum of the two confection
  quantities, shipping \<open>stockCxQty\<close>) and answers COMPLETED iff \<open>qtyRequested > 0\<close> and
  the quantity is at least \<open>qtyRequested\<close>, otherwise IN_PROGRESS iff the quantity is
  positive, otherwise NOT_STARTED. Confection with 30 + 20 of 50 requested is COMPLETED.
\<close>

theorem getSectorState_spec:
  "sectorQty ord ''tecelagem'' = felpoCruQty ord
   \<and> sectorQty ord ''felpo_cru'' = felpoCruQty ord
   \<and> sectorQty ord ''tinturaria'' = tinturariaQty ord
   \<and> sectorQty ord ''confeccao'' = js_add (confRoupoesQty ord) (confFelposQty ord)
   \<and> sectorQty ord ''embalagem'' = embAcabQty ord
   \<and> sectorQty ord ''expedicao'' = stockCxQty ord
   \<and> (\<forall>s \<in> set sectorIds.
         (getSectorState ord s = SECTOR_COMPLETED \<longleftrightarrow>
            js_gt (qtyRequested ord) (Fin 0) \<and> js_ge (sectorQty ord s) (qtyRequested ord))
       \<and> (getSectorState ord s = IN_PROGRESS \<longleftrightarrow>
            \<not> (js_gt (qtyRequested ord) (Fin 0) \<and> js_ge (sectorQty ord s) (qtyRequested ord))
            \<and> js_gt (sectorQty ord s) (Fin 0))
       \<and> (getSectorState ord s = NOT_STARTED \<longleftrightarrow>
            \<not> (js_gt (qtyRequested ord) (Fin 0) \<and> js_ge (sectorQty ord s) (qtyRequested ord))
            \<and> \<not> js_gt (sectorQty ord s) (Fin 0)))
   \<and> (confRoupoesQty ord = Fin 30 \<and> confFelposQty ord = Fin 20 \<and> qtyRequested ord = Fin 50
        \<longrightarrow> getSectorState ord ''confeccao'' = SECTOR_COMPLETED)"
  by (simp add: getSectorState_def sectorQty_def Let_def js_gt_def js_ge_def js_le_def)

theorem getSectorState_spec_witness:
  "''confeccao'' \<in> set sectorIds
   \<and> confRoupoesQty (blankOrder\<lparr>confRoupoesQty := Fin 30, confFelposQty := Fin 20,
                                  qtyRequested := Fin 50\<rparr>) = Fin 30
   \<and> sectorQty (blankOrder\<lparr>confRoupoesQty := Fin 30, confFelposQty := Fin 20,
                             qtyRequested := Fin 50\<rparr>) ''confeccao'' = Fin 50
   \<and> getSectorState (blankOrder\<lparr>confRoupoesQty := Fin 30, confFelposQty := Fin 20,
                                  qtyRequested := Fin 50\<rparr>) ''confeccao'' = SECTOR_COMPLETED"
  using getSectorState_spec
          [of "blankOrder\<lparr>confRoupoesQty := Fin 30, confFelposQty := Fin 20,
                            qtyRequested := Fin 50\<rparr>"]
  by (simp add: sectorIds_def blankOrder_def)

text \<open>
  C8. On the empty order list every count of \<open>calculateKPIs\<close> is zero, both sums are
  zero, and the fulfilment rate is 0: the quotient is guarded by the count of orders
  of the week, so the division 0 / 0 (which is NaN) is never evaluated.
\<close>

theorem calculateKPIs_empty:
  "calculateKPIs clock [] =
     \<lparr> totalActiveDocs = 0, totalLate = 0, deliveriesThisWeek = 0,
       fulfillmentRateWeek = Fin 0, totalInProduction = 0, billed = Fin 0, openQty = Fin 0 \<rparr>
   \<and> js_div (Fin 0) (Fin 0) = NaN"
  by (simp add: calculateKPIs_def Let_def split: prod.split)

section \<open>Properties of the numeric normaliser\<close>





section \<open>Properties of the custom export\<close>

lemma fst_setProp:
  "map fst (setProp k v row) = (if k \<in> set (map fst row) then map fst row else map fst row @ [k])"
proof (induction row)
  case Nil
  show ?case by simp
next
  case (Cons p row)
  obtain k' v' where p: "p = (k', v')" by (cases p)
  show ?case
  proof (cases "k = k'")
    case True
    then show ?thesis by (simp add: p)
  next
    case False
    then show ?thesis using Cons by (simp add: p)
  qed
qed

lemma keys_foldl_setProp:
  "map fst (foldl (\<lambda>row col. setProp (lab col) (f col) row) acc cols)
   = foldl (\<lambda>h k. if k \<in> set h then h else h @ [k]) (map fst acc) (map lab cols)"
  by (induction cols arbitrary: acc) (simp_all add: fst_setProp)

lemma keys_customRow:
  "map fst (customRow P clock colDefs ord) = firstOcc (map label colDefs)"
  by (simp add: customRow_def firstOcc_def keys_foldl_setProp)

lemma foldl_addKey_known:
  "set ks \<subseteq> set h \<Longrightarrow> foldl (\<lambda>h k. if k \<in> set h then h else h @ [k]) h ks = h"
  by (induction ks arbitrary: h) auto

lemma foldl_addKey_set:
  "set (foldl (\<lambda>h k. if k \<in> set h then h else h @ [k]) h ks) = set h \<union> set ks"
  by (induction ks arbitrary: h) auto

lemma foldl_addKey_distinct:
  "distinct (h @ ks) \<Longrightarrow> foldl (\<lambda>h k. if k \<in> set h then h else h @ [k]) h ks = h @ ks"
  by (induction ks arbitrary: h) auto

lemma firstOcc_distinct: "distinct xs \<Longrightarrow> firstOcc xs = xs"
  using foldl_addKey_distinct [of "[]" xs] by (simp add: firstOcc_def)

lemma set_firstOcc: "set (firstOcc xs) = set xs"
  by (simp add: firstOcc_def foldl_addKey_set)

lemma foldl_addKeys_same:
  "\<forall>r \<in> set rows. set (map fst r) \<subseteq> set h \<Longrightarrow> foldl addKeys h rows = h"
  by (induction rows arbitrary: h) (simp_all add: addKeys_def foldl_addKey_known)

lemma foldl_addKey_keeps_distinct:
  "distinct h \<Longrightarrow> distinct (foldl (\<lambda>h k. if k \<in> set h then h else h @ [k]) h ks)"
  by (induction ks arbitrary: h) auto

lemma distinct_firstOcc: "distinct (firstOcc xs)"
  by (simp add: firstOcc_def foldl_addKey_keeps_distinct)

lemma sheetHeader_same:
  assumes "rows \<noteq> []" and "\<forall>r \<in> set rows. map fst r = firstOcc ks"
  shows "sheetHeader rows = firstOcc ks"
proof -
  obtain r rs where rows: "rows = r # rs" using assms(1) by (cases rows) auto
  have r: "map fst r = firstOcc ks" using assms(2) rows by simp
  have "addKeys [] r = firstOcc (firstOcc ks)"
    by (simp add: addKeys_def firstOcc_def r)
  then have a: "addKeys [] r = firstOcc ks"
    by (simp add: firstOcc_distinct distinct_firstOcc)
  have "foldl addKeys (firstOcc ks) rs = firstOcc ks"
    by (rule foldl_addKeys_same) (use assms(2) rows in auto)
  then show ?thesis by (simp add: sheetHeader_def rows a)
qed

lemma findColumn_key: "findColumn k = Some c \<Longrightarrow> key c = k \<and> c \<in> set ALL_EXPORT_COLUMNS"
  unfolding findColumn_def by (auto simp: find_Some_iff)

lemma findColumn_None: "findColumn k = None \<longleftrightarrow> k \<notin> key ` set ALL_EXPORT_COLUMNS"
  unfolding findColumn_def by (auto simp: find_None_iff)

lemma resolveColumns_Nil: "resolveColumns [] = []"
  by (simp add: resolveColumns_def List.map_filter_simps)

lemma resolveColumns_Cons:
  "resolveColumns (k # ks) =
     (case findColumn k of None \<Rightarrow> resolveColumns ks | Some c \<Rightarrow> c # resolveColumns ks)"
  by (simp add: resolveColumns_def split: option.split)

lemma keys_resolveColumns:
  "map key (resolveColumns ks) = filter (\<lambda>k. k \<in> key ` set ALL_EXPORT_COLUMNS) ks"
proof (induction ks)
  case Nil
  show ?case by (simp add: resolveColumns_Nil)
next
  case (Cons k ks)
  show ?case
  proof (cases "findColumn k")
    case None
    then show ?thesis using Cons findColumn_None [of k] by (simp add: resolveColumns_Cons)
  next
    case (Some c)
    then have "k \<in> key ` set ALL_EXPORT_COLUMNS" using findColumn_None [of k] by simp
    then show ?thesis using Some Cons findColumn_key [OF Some] by (simp add: resolveColumns_Cons)
  qed
qed

lemma set_resolveColumns: "set (resolveColumns ks) \<subseteq> set ALL_EXPORT_COLUMNS"
proof (induction ks)
  case Nil
  show ?case by (simp add: resolveColumns_Nil)
next
  case (Cons k ks)
  then show ?case
    by (cases "findColumn k") (auto simp: resolveColumns_Cons dest: findColumn_key)
qed

lemma distinct_labels: "distinct (map label ALL_EXPORT_COLUMNS)"
  by (simp add: ALL_EXPORT_COLUMNS_def)

lemma distinct_resolved_labels:
  assumes "distinct ks"
  shows "distinct (map label (resolveColumns ks))"
proof -
  have "distinct (map key (resolveColumns ks))"
    using assms by (simp add: keys_resolveColumns)
  then have d: "distinct (resolveColumns ks)"
    by (simp add: distinct_map)
  have "inj_on label (set ALL_EXPORT_COLUMNS)"
    using distinct_labels by (simp add: distinct_map)
  then have "inj_on label (set (resolveColumns ks))"
    using set_resolveColumns by (rule inj_on_subset)
  with d show ?thesis by (simp add: distinct_map)
qed

text \<open>
  C10. \<open>exportCustomColumns\<close> on a non-empty order list and a non-empty selection writes
  a sheet and raises no error, whatever keys the selection holds: the keys that are not
  in \<open>ALL_EXPORT_COLUMNS\<close> are dropped, the columns of the sheet are those of the
  recognised keys in the order given, under their registry labels, and every row has
  exactly these columns (a key selected twice has one column, at its first place).
\<close>

theorem exportCustomColumns_drops_unknown:
  "orders \<noteq> [] \<Longrightarrow> selectedColumnKeys \<noteq> [] \<Longrightarrow>
     (\<exists>body. exportCustomColumns P clock orders selectedColumnKeys
                = Some (firstOcc (map label (resolveColumns selectedColumnKeys)), body)
            \<and> length body = length orders
            \<and> (\<forall>row \<in> set body.
                  map fst row = firstOcc (map label (resolveColumns selectedColumnKeys))))
     \<and> map key (resolveColumns selectedColumnKeys)
           = filter (\<lambda>k. k \<in> key ` set ALL_EXPORT_COLUMNS) selectedColumnKeys
     \<and> set (resolveColumns selectedColumnKeys) \<subseteq> set ALL_EXPORT_COLUMNS
     \<and> (distinct selectedColumnKeys \<longrightarrow>
           firstOcc (map label (resolveColumns selectedColumnKeys))
             = map label (resolveColumns selectedColumnKeys))"
proof -
  assume orders: "orders \<noteq> []" and sel: "selectedColumnKeys \<noteq> []"
  let ?cols = "resolveColumns selectedColumnKeys"
  let ?data = "map (customRow P clock ?cols) orders"
  have "sheetHeader ?data = firstOcc (map label ?cols)"
    by (rule sheetHeader_same) (use orders in \<open>auto simp: keys_customRow\<close>)
  then have 1: "\<exists>body. exportCustomColumns P clock orders selectedColumnKeys
                  = Some (firstOcc (map label ?cols), body)
           \<and> length body = length orders
           \<and> (\<forall>row \<in> set body. map fst row = firstOcc (map label ?cols))"
    using orders sel by (auto simp: exportCustomColumns_def Let_def keys_customRow)
  have 2: "map key ?cols = filter (\<lambda>k. k \<in> key ` set ALL_EXPORT_COLUMNS) selectedColumnKeys"
    by (rule keys_resolveColumns)
  have 3: "set ?cols \<subseteq> set ALL_EXPORT_COLUMNS"
    by (rule set_resolveColumns)
  have 4: "distinct selectedColumnKeys \<longrightarrow> firstOcc (map label ?cols) = map label ?cols"
    by (simp add: firstOcc_distinct distinct_resolved_labels)
  from 1 2 3 4 show ?thesis by blast
qed

theorem exportCustomColumns_drops_unknown_witness:
  "[blankOrder] \<noteq> [] \<and> [''docNr'', ''bogus'', ''po''] \<noteq> []
   \<and> distinct [''docNr'', ''bogus'', ''po'']
   \<and> map key (resolveColumns [''docNr'', ''bogus'', ''po'']) = [''docNr'', ''po'']
   \<and> map label (resolveColumns [''docNr'', ''bogus'', ''po'']) = [''Nr. Documento'', ''PO'']
   \<and> (\<exists>body. exportCustomColumns samplePlatform 0 [blankOrder] [''docNr'', ''bogus'', ''po'']
                = Some ([''Nr. Documento'', ''PO''], body) \<and> length body = 1)"
proof -
  have r: "resolveColumns [''docNr'', ''bogus'', ''po'']
             = [\<lparr> key = ''docNr'', label = ''Nr. Documento'',
                   group = ''Identifica'' @ [CHR 0xE7] @ [CHR 0xE3] @ ''o'' \<rparr>,
                \<lparr> key = ''po'', label = ''PO'', group = ''Cliente'' \<rparr>]"
    by (simp add: resolveColumns_def findColumn_def ALL_EXPORT_COLUMNS_def List.map_filter_simps)
  have f: "firstOcc [''Nr. Documento'', ''PO''] = [''Nr. Documento'', ''PO'']"
    by (simp add: firstOcc_def)
  have ne: "[blankOrder] \<noteq> []" "[''docNr'', ''bogus'', ''po''] \<noteq> []"
    by simp_all
  note t = exportCustomColumns_drops_unknown [OF ne, of samplePlatform 0]
  from t obtain body where
    b: "exportCustomColumns samplePlatform 0 [blankOrder] [''docNr'', ''bogus'', ''po'']
          = Some (firstOcc (map label (resolveColumns [''docNr'', ''bogus'', ''po''])), body)"
       "length body = length [blankOrder]"
    by blast
  have "exportCustomColumns samplePlatform 0 [blankOrder] [''docNr'', ''bogus'', ''po'']
          = Some ([''Nr. Documento'', ''PO''], body) \<and> length body = 1"
    using b by (simp only: r f list.map ExportColumnDef.simps list.size) simp
  then have e: "\<exists>body. exportCustomColumns samplePlatform 0 [blankOrder]
                          [''docNr'', ''bogus'', ''po'']
                        = Some ([''Nr. Documento'', ''PO''], body) \<and> length body = 1"
    by blast
  show ?thesis
    using e by (simp add: r)
qed

section \<open>Properties of the spreadsheet import\<close>

lemma flagCell_flagNum: "flagCell (flagNum b) = b"
  by (simp add: flagCell_def flagNum_def)













section \<open>Spreadsheet round trip\<close>



























lemma sample_jsonReadsBack: "jsonReadsBack samplePlatform (VObj [])"
  by (simp add: jsonReadsBack_def samplePlatform_def orElse_def)

lemma sample_datesReadBack: "datesReadBack samplePlatform (VObj [])"
  by (simp add: datesReadBack_def samplePlatform_def orElse_def hydrateDates_def)


lemma trim_ENC: "trim ''ENC-1'' = ''ENC-1''" "trim ''C1'' = ''C1''" "trim ''X'' = ''X''"
  "trim ''K'' = ''K''" "trim ''L'' = ''L''" "trim [] = []"
  by (simp_all add: trim_def isWhite_def)

lemma blank_excelStable: "excelStable samplePlatform blankOrder"
  by (simp add: excelStable_def blankOrder_def isText_def isFin_def trim_ENC
        sample_jsonReadsBack sample_datesReadBack toLowerCase_def lowerChar_def char_of_eq_iff)




section \<open>Properties of the embedded-database import\<close>

lemma getProp_setProp:
  "getProp (setProp k v obj) k' = (if k' = k then v else getProp obj k')"
  by (induction obj) (auto simp: getProp_def)

lemma getProp_hydrateField:
  "getProp (hydrateField P obj f) k = (if k = f then hydrateVal P (getProp obj f) else getProp obj k)"
  by (simp add: hydrateField_def hydrateVal_def getProp_setProp)

lemma getProp_foldl_hydrateField:
  "distinct fs \<Longrightarrow>
   getProp (foldl (hydrateField P) obj fs) k
     = (if k \<in> set fs then hydrateVal P (getProp obj k) else getProp obj k)"
  by (induction fs arbitrary: obj) (auto simp: getProp_hydrateField)

lemma getProp_parseJsonField:
  "getProp (parseJsonField P obj f) k = (if k = f then jsonVal P (getProp obj f) else getProp obj k)"
  by (simp add: parseJsonField_def jsonVal_def getProp_setProp)

lemma getProp_parseDatesField:
  "getProp (parseDatesField P obj f) k = (if k = f then datesVal P (getProp obj f) else getProp obj k)"
  by (simp add: parseDatesField_def datesVal_def getProp_setProp)

lemma getProp_defaultField:
  "getProp (defaultField obj f d) k
     = (if k = f then (if truthy (getProp obj f) then getProp obj f else d) else getProp obj k)"
  by (simp add: defaultField_def getProp_setProp)

lemma getProp_flagField:
  "getProp (flagField obj f) k = (if k = f then VBool (flagCell (getProp obj f)) else getProp obj k)"
  by (simp add: flagField_def getProp_setProp)

lemmas getProp_steps =
  getProp_hydrateField getProp_foldl_hydrateField getProp_parseJsonField getProp_parseDatesField
  getProp_defaultField getProp_flagField

lemma distinct_dateFields: "distinct dateFields"
  by (simp add: dateFields_def)

lemma getProp_sqliteRow:
  "getProp (sqliteRow P columns row) k = fieldImport P k (getProp (rowObject columns row) k)"
  unfolding sqliteRow_def Let_def fieldImport_def
  by (simp add: getProp_steps distinct_dateFields) (simp add: dateFields_def)


lemma setProp_new: "k \<notin> set (map fst obj) \<Longrightarrow> setProp k v obj = obj @ [(k, v)]"
  by (induction obj) auto

lemma foldl_setProp_distinct:
  "distinct (map fst (acc @ kvs)) \<Longrightarrow>
   foldl (\<lambda>obj (c, v). setProp c v obj) acc kvs = acc @ kvs"
proof (induction kvs arbitrary: acc)
  case Nil
  show ?case by simp
next
  case (Cons kv kvs)
  obtain k v where kv: "kv = (k, v)" by (cases kv)
  have "k \<notin> set (map fst acc)" using Cons.prems kv by auto
  then have s: "setProp k v acc = acc @ [(k, v)]" by (rule setProp_new)
  have "distinct (map fst ((acc @ [(k, v)]) @ kvs))" using Cons.prems kv by simp
  from Cons.IH [OF this] show ?case by (simp add: kv s)
qed

lemma rowObject_zip:
  "distinct columns \<Longrightarrow> length row = length columns \<Longrightarrow> rowObject columns row = zip columns row"
  using foldl_setProp_distinct [of "[]" "zip columns row"]
  by (simp add: rowObject_def)

lemma truthy_getProp_key: "truthy (getProp obj f) \<Longrightarrow> f \<in> set (map fst obj)"
  by (cases "map_of obj f") (auto simp: getProp_def dest: map_of_SomeD intro: rev_image_eqI)

lemma keys_hydrateField: "map fst (hydrateField P obj f) = map fst obj"
  using truthy_getProp_key [of obj f] by (simp add: hydrateField_def fst_setProp)

lemma keys_foldl_hydrateField: "map fst (foldl (hydrateField P) obj fs) = map fst obj"
  by (induction fs arbitrary: obj) (simp_all add: keys_hydrateField)

lemma keys_parseJsonField: "map fst (parseJsonField P obj f) = map fst obj"
  using truthy_getProp_key [of obj f] by (simp add: parseJsonField_def fst_setProp)

lemma keys_parseDatesField: "map fst (parseDatesField P obj f) = map fst obj"
  using truthy_getProp_key [of obj f] by (simp add: parseDatesField_def fst_setProp)

lemma keys_defaultField: "f \<in> set (map fst obj) \<Longrightarrow> map fst (defaultField obj f d) = map fst obj"
  by (simp add: defaultField_def fst_setProp)

lemma keys_flagField: "f \<in> set (map fst obj) \<Longrightarrow> map fst (flagField obj f) = map fst obj"
  by (simp add: flagField_def fst_setProp)

lemma keys_sqliteRow:
  assumes "set [''priority'', ''comercial'', ''isManual'', ''isArchived''] \<subseteq> set (map fst (rowObject columns row))"
  shows "map fst (sqliteRow P columns row) = map fst (rowObject columns row)"
  unfolding sqliteRow_def Let_def using assms
  by (simp add: keys_hydrateField keys_foldl_hydrateField keys_parseJsonField
        keys_parseDatesField keys_defaultField keys_flagField)

lemma obj_eqI:
  "map fst a = map fst b \<Longrightarrow> distinct (map fst a)
   \<Longrightarrow> (\<forall>k \<in> set (map fst a). getProp a k = getProp b k) \<Longrightarrow> a = b"
proof (induction a arbitrary: b)
  case Nil
  then show ?case by simp
next
  case (Cons p a)
  obtain k v where p: "p = (k, v)" by (cases p)
  from Cons.prems(1) obtain q b' where b: "b = q # b'" by (cases b) auto
  obtain k' w where q: "q = (k', w)" by (cases q)
  have kk: "k' = k" using Cons.prems(1) by (simp add: b p q)
  have vw: "v = w" using Cons.prems(3) by (simp add: b p q kk getProp_def)
  have "a = b'"
  proof (rule Cons.IH)
    show "map fst a = map fst b'" using Cons.prems(1) by (simp add: b)
    show "distinct (map fst a)" using Cons.prems(2) by simp
    show "\<forall>j \<in> set (map fst a). getProp a j = getProp b' j"
    proof
      fix j assume j: "j \<in> set (map fst a)"
      then have "j \<noteq> k" using Cons.prems(2) by (auto simp: p)
      moreover have "getProp (p # a) j = getProp b j" using Cons.prems(3) j by auto
      ultimately show "getProp a j = getProp b' j" by (simp add: getProp_def b p q kk)
    qed
  qed
  then show ?case by (simp add: b p q kk vw)
qed

lemma distinct_orderColumns: "distinct orderColumns"
  by (simp add: orderColumns_def)

lemma length_orderColumns: "length orderColumns = 45"
  by (simp add: orderColumns_def)

lemma keys_objOfOrder: "map fst (objOfOrder ord) = orderColumns"
  by (simp add: objOfOrder_def orderColumns_def)


lemma hydrateVal_dateCol: "okDate d \<Longrightarrow> hydrateVal P (dateCol d) = dateValue d"
  by (auto simp: okDate_def hydrateVal_def dateCol_def dateValue_def numCol_def newDate_def
        timeClip_def split: option.splits jsdate.splits)

lemma jsonVal_jsonText: "jsonReadsBack P m \<Longrightarrow> jsonVal P (jsonText P m) = m"
  by (simp add: jsonReadsBack_def jsonVal_def jsonText_def)

lemma datesVal_jsonText: "datesReadBack P m \<Longrightarrow> datesVal P (jsonText P m) = m"
  by (auto simp: datesReadBack_def datesVal_def jsonText_def split: option.splits)

lemma numCol_ok: "n \<noteq> NaN \<Longrightarrow> numCol n = VNum n"
  by (simp add: numCol_def)

lemma priority_back:
  "p \<noteq> NaN \<Longrightarrow>
   (if truthy (numCol (if truthy (VNum p) then p else Fin 0))
    then numCol (if truthy (VNum p) then p else Fin 0) else VNum (Fin 0)) = VNum p"
  by (auto simp: numCol_def)

lemma textCol_text: "isText v \<Longrightarrow> textCol P v = Inr v"
  by (cases v) (simp_all add: isText_def textCol_def bindValue_def)

lemma textCol_archivedBy:
  "v = VNull \<or> (isText v \<and> v \<noteq> VStr []) \<Longrightarrow> textCol P (orElse v VNull) = Inr v"
  by (cases v) (auto simp: isText_def textCol_def bindValue_def orElse_def)

lemma stored_fields:
  assumes "sqliteStable P ord"
  shows "\<exists>vs. sqliteValues P ord = Inr vs \<and> length vs = 45 \<and> hd vs = order_id ord
           \<and> (\<forall>k \<in> set orderColumns.
                 fieldImport P k (getProp (zip orderColumns vs) k) = getProp (objOfOrder ord) k)"
proof -
  have a: "textCol P (order_id ord) = Inr (order_id ord)"
    using assms by (simp add: sqliteStable_def textCol_text)
  have b: "textCol P (orElse (archivedBy ord) VNull) = Inr (archivedBy ord)"
    using assms by (intro textCol_archivedBy) (simp add: sqliteStable_def)
  show ?thesis
    using assms unfolding sqliteStable_def
    by (simp add: sqliteValues_def a b orderColumns_def objOfOrder_def getProp_def
          fieldImport_def dateFields_def hydrateVal_dateCol jsonVal_jsonText datesVal_jsonText
          flagCell_flagNum numCol_ok priority_back)
qed


lemma sqliteRow_stored:
  assumes "sqliteStable P ord" and "sqliteValues P ord = Inr vs"
  shows "sqliteRow P orderColumns vs = objOfOrder ord"
proof -
  from stored_fields [OF assms(1)] assms(2)
  have len: "length vs = 45"
    and flds: "\<forall>k \<in> set orderColumns.
                 fieldImport P k (getProp (zip orderColumns vs) k) = getProp (objOfOrder ord) k"
    by auto
  have raw: "rowObject orderColumns vs = zip orderColumns vs"
    by (rule rowObject_zip) (simp_all add: distinct_orderColumns length_orderColumns len)
  have rawkeys: "map fst (rowObject orderColumns vs) = orderColumns"
    by (simp add: raw len length_orderColumns)
  have "set [''priority'', ''comercial'', ''isManual'', ''isArchived''] \<subseteq> set orderColumns"
    by (simp add: orderColumns_def)
  then have sub: "set [''priority'', ''comercial'', ''isManual'', ''isArchived'']
                    \<subseteq> set (map fst (rowObject orderColumns vs))"
    by (simp only: rawkeys)
  have keys: "map fst (sqliteRow P orderColumns vs) = orderColumns"
    using keys_sqliteRow [OF sub, of P] by (simp only: rawkeys)
  show ?thesis
  proof (rule obj_eqI)
    show "map fst (sqliteRow P orderColumns vs) = map fst (objOfOrder ord)"
      by (simp add: keys keys_objOfOrder)
    show "distinct (map fst (sqliteRow P orderColumns vs))"
      by (simp add: keys distinct_orderColumns)
    show "\<forall>k \<in> set (map fst (sqliteRow P orderColumns vs)).
            getProp (sqliteRow P orderColumns vs) k = getProp (objOfOrder ord) k"
      using flds by (simp add: keys getProp_sqliteRow raw)
  qed
qed

lemma insertOrders_ok:
  assumes "\<forall>ord \<in> set ords. sqliteStable P ord"
    and "distinct (map order_id ords)"
    and "\<forall>ord \<in> set ords. order_id ord \<notin> set (map hd rows)"
  shows "\<exists>rows'. insertOrders P rows ords = Inr (rows @ rows')
           \<and> map (sqliteRow P orderColumns) rows' = map objOfOrder ords"
  using assms
proof (induction ords arbitrary: rows)
  case Nil
  then show ?case by simp
next
  case (Cons ord ords)
  have st: "sqliteStable P ord" using Cons.prems(1) by simp
  from stored_fields [OF st] obtain vs where
    vs: "sqliteValues P ord = Inr vs" and h: "hd vs = order_id ord" by blast
  have fresh: "hd vs \<notin> set (map hd rows)" using Cons.prems(3) h by simp
  have "\<exists>rows'. insertOrders P (rows @ [vs]) ords = Inr ((rows @ [vs]) @ rows')
           \<and> map (sqliteRow P orderColumns) rows' = map objOfOrder ords"
  proof (rule Cons.IH)
    show "\<forall>x \<in> set ords. sqliteStable P x" using Cons.prems(1) by simp
    show "distinct (map order_id ords)" using Cons.prems(2) by simp
    show "\<forall>x \<in> set ords. order_id x \<notin> set (map hd (rows @ [vs]))"
    proof
      fix x assume x: "x \<in> set ords"
      then have "order_id x \<noteq> order_id ord" using Cons.prems(2) by (auto simp: image_iff)
      moreover have "order_id x \<notin> set (map hd rows)" using Cons.prems(3) x by simp
      ultimately show "order_id x \<notin> set (map hd (rows @ [vs]))" using h by simp
    qed
  qed
  then obtain rows' where
    r: "insertOrders P (rows @ [vs]) ords = Inr ((rows @ [vs]) @ rows')"
       "map (sqliteRow P orderColumns) rows' = map objOfOrder ords"
    by blast
  have "insertOrders P rows (ord # ords) = Inr (rows @ (vs # rows'))"
    using vs fresh r(1) by simp
  moreover have "map (sqliteRow P orderColumns) (vs # rows') = map objOfOrder (ord # ords)"
    using r(2) sqliteRow_stored [OF st vs] by simp
  ultimately show ?case by blast
qed

lemma insertHeaders_text:
  "\<forall>v \<in> snd ` set hs. isText v \<Longrightarrow>
   insertHeaders P hs = Inr (map (\<lambda>(k, v). (VStr k, v)) hs)"
  by (induction hs) (auto simp: textCol_text)

lemma readHeaders_back:
  "distinct (map fst (acc @ hs)) \<Longrightarrow>
   foldl (\<lambda>h (k, v). setProp (js_String P k) v h) acc (map (\<lambda>(k, v). (VStr k, v)) hs)
     = acc @ hs"
proof (induction hs arbitrary: acc)
  case Nil
  show ?case by simp
next
  case (Cons kv hs)
  obtain k v where kv: "kv = (k, v)" by (cases kv)
  have "k \<notin> set (map fst acc)" using Cons.prems kv by auto
  then have s: "setProp k v acc = acc @ [(k, v)]" by (rule setProp_new)
  have "distinct (map fst ((acc @ [(k, v)]) @ hs))" using Cons.prems kv by simp
  from Cons.IH [OF this] show ?case by (simp add: kv s)
qed

lemma sqlite_round_trip_ok:
  assumes "\<forall>ord \<in> set orders. sqliteStable P ord"
    and "distinct (map order_id orders)"
    and "distinct (map fst headers)"
    and "\<forall>v \<in> snd ` set headers. isText v"
  shows "sqliteRoundTrip P orders headers = Inr (map objOfOrder orders, headers)"
proof -
  from insertOrders_ok [OF assms(1,2), of "[]"] obtain rows where
    rows: "insertOrders P [] orders = Inr rows"
          "map (sqliteRow P orderColumns) rows = map objOfOrder orders"
    by auto
  have hs: "insertHeaders P headers = Inr (map (\<lambda>(k, v). (VStr k, v)) headers)"
    using assms(4) by (rule insertHeaders_text)
  have rd: "readHeaders P (Some (map (\<lambda>(k, v). (VStr k, v)) headers)) = headers"
    using readHeaders_back [of "[]" headers P] assms(3) by (simp add: readHeaders_def)
  show ?thesis
    using rows(2) by (auto simp: sqliteRoundTrip_def exportOrdersToSQLite_def hs rows(1)
          parseSQLiteFile_def rd)
qed

lemma hydrateDates_values:
  "hydrateDates P w = Inr (VObj kvs) \<Longrightarrow> (k, v) \<in> set kvs \<Longrightarrow> truthy v \<Longrightarrow> \<exists>d. v = VDate d"
  by (cases w) (auto simp: hydrateDates_def hydrateEntry_def split: if_splits)

lemma datesVal_values:
  "datesVal P raw = VObj kvs \<Longrightarrow> (k, v) \<in> set kvs \<Longrightarrow> truthy v \<Longrightarrow> \<exists>d. v = VDate d"
  by (auto simp: datesVal_def split: if_splits option.splits sum.splits
        dest: hydrateDates_values)

lemma imported_dates_hydrated:
  assumes "parseSQLiteFile P file = Inr (objs, hs)" and "obj \<in> set objs"
    and "getProp obj ''sectorPredictedDates'' = VObj kvs" and "(k, v) \<in> set kvs" and "truthy v"
  shows "\<exists>d. v = VDate d"
proof -
  from assms(1,2) obtain columns row where "obj = sqliteRow P columns row"
    by (auto simp: parseSQLiteFile_def split: sqlite_file.splits option.splits prod.splits if_splits)
  then have "datesVal P (getProp (rowObject columns row) ''sectorPredictedDates'') = VObj kvs"
    using assms(3) by (simp add: getProp_sqliteRow fieldImport_def dateFields_def)
  then show ?thesis using assms(4,5) by (rule datesVal_values)
qed


text \<open>
  C2, as the code has it. In the embedded-database path a sector-mapping column whose
  text is not JSON becomes the empty mapping, each of the three fields of an imported
  order is its column read in this way, an absent column (\<open>NULL\<close> or empty) stays as it
  is, and the import of a database that has a table \<open>orders\<close> never fails, one object
  for each row. In the spreadsheet path an absent cell becomes the empty mapping, and a
  row with a document number and no cell in the three columns is imported with three
  empty mappings.
\<close>

theorem sector_json_tolerance:
  "(truthy raw \<and> jsonParse P (js_String P raw) = None \<longrightarrow>
      jsonVal P raw = VObj [] \<and> datesVal P raw = VObj [])
   \<and> (\<not> truthy raw \<longrightarrow> jsonVal P raw = raw \<and> datesVal P raw = raw)
   \<and> getProp (sqliteRow P columns row) ''sectorObservations''
       = jsonVal P (getProp (rowObject columns row) ''sectorObservations'')
   \<and> getProp (sqliteRow P columns row) ''sectorPredictedDates''
       = datesVal P (getProp (rowObject columns row) ''sectorPredictedDates'')
   \<and> getProp (sqliteRow P columns row) ''sectorStopReasons''
       = jsonVal P (getProp (rowObject columns row) ''sectorStopReasons'')
   \<and> (\<exists>objs. parseSQLiteFile P (Database hs (Some (columns, rows))) = Inr (objs, readHeaders P hs)
             \<and> length objs = length rows)
   \<and> (\<not> truthy c \<longrightarrow> jsonCell P c = Inr (VObj []))
   \<and> (\<not> skipRow P xrow \<and> \<not> truthy (getProp xrow ''AH'') \<and> \<not> truthy (getProp xrow ''AI'')
        \<and> \<not> truthy (getProp xrow ''AJ'') \<longrightarrow>
        (\<exists>ord. parseExcelRow P xrow = Inr (Some ord) \<and> sectorObservations ord = VObj []
              \<and> sectorPredictedDates ord = VObj [] \<and> sectorStopReasons ord = VObj []))"
proof -
  have 1: "truthy raw \<and> jsonParse P (js_String P raw) = None \<longrightarrow>
      jsonVal P raw = VObj [] \<and> datesVal P raw = VObj []"
    by (simp add: jsonVal_def datesVal_def)
  have 2: "\<not> truthy raw \<longrightarrow> jsonVal P raw = raw \<and> datesVal P raw = raw"
    by (simp add: jsonVal_def datesVal_def)
  have 3: "getProp (sqliteRow P columns row) ''sectorObservations''
       = jsonVal P (getProp (rowObject columns row) ''sectorObservations'')"
    "getProp (sqliteRow P columns row) ''sectorPredictedDates''
       = datesVal P (getProp (rowObject columns row) ''sectorPredictedDates'')"
    "getProp (sqliteRow P columns row) ''sectorStopReasons''
       = jsonVal P (getProp (rowObject columns row) ''sectorStopReasons'')"
    by (simp_all add: getProp_sqliteRow fieldImport_def dateFields_def)
  have 4: "\<exists>objs. parseSQLiteFile P (Database hs (Some (columns, rows))) = Inr (objs, readHeaders P hs)
             \<and> length objs = length rows"
    by (simp add: parseSQLiteFile_def)
  have 5: "\<not> truthy c \<longrightarrow> jsonCell P c = Inr (VObj [])"
    by (simp add: jsonCell_def)
  have 6: "\<not> skipRow P xrow \<and> \<not> truthy (getProp xrow ''AH'') \<and> \<not> truthy (getProp xrow ''AI'')
        \<and> \<not> truthy (getProp xrow ''AJ'') \<longrightarrow>
        (\<exists>ord. parseExcelRow P xrow = Inr (Some ord) \<and> sectorObservations ord = VObj []
              \<and> sectorPredictedDates ord = VObj [] \<and> sectorStopReasons ord = VObj [])"
    by (simp add: parseExcelRow_def jsonCell_def hydrateDates_def Let_def)
  from 1 2 3 4 5 6 show ?thesis by blast
qed

theorem sector_json_tolerance_witness:
  "truthy (VStr ''{'') \<and> jsonParse samplePlatform (js_String samplePlatform (VStr ''{'')) = None
   \<and> jsonVal samplePlatform (VStr ''{'') = VObj []
   \<and> datesVal samplePlatform (VStr ''{'') = VObj []
   \<and> \<not> truthy VNull \<and> jsonVal samplePlatform VNull = VNull
   \<and> \<not> truthy VUndef \<and> jsonCell samplePlatform VUndef = Inr (VObj [])
   \<and> \<not> skipRow samplePlatform [(''B'', VStr ''ENC-1'')]
   \<and> (\<exists>ord. parseExcelRow samplePlatform [(''B'', VStr ''ENC-1'')] = Inr (Some ord)
           \<and> sectorObservations ord = VObj [] \<and> sectorPredictedDates ord = VObj []
           \<and> sectorStopReasons ord = VObj [])
   \<and> getProp (sqliteRow samplePlatform [''id'', ''sectorObservations''] [VStr ''o1'', VStr ''{''])
        ''sectorObservations'' = VObj []"
proof -
  have a: "truthy (VStr ''{'')"
    "jsonParse samplePlatform (js_String samplePlatform (VStr ''{'')) = None"
    by (simp_all add: samplePlatform_def)
  have b: "\<not> skipRow samplePlatform [(''B'', VStr ''ENC-1'')]"
    by code_simp
  have c: "getProp (rowObject [''id'', ''sectorObservations''] [VStr ''o1'', VStr ''{''])
             ''sectorObservations'' = VStr ''{''"
    by code_simp
  have d: "\<not> truthy (getProp [(''B'', VStr ''ENC-1'')] ''AH'')"
    "\<not> truthy (getProp [(''B'', VStr ''ENC-1'')] ''AI'')"
    "\<not> truthy (getProp [(''B'', VStr ''ENC-1'')] ''AJ'')"
    by (simp_all add: getProp_def)
  note t1 = sector_json_tolerance [of "VStr ''{''" samplePlatform
      "[''id'', ''sectorObservations'']" "[VStr ''o1'', VStr ''{'']" None "[]" VUndef
      "[(''B'', VStr ''ENC-1'')]"]
  note t2 = sector_json_tolerance [of VNull samplePlatform "[]" "[]" None "[]" VUndef "[]"]
  from t1 a have 1: "jsonVal samplePlatform (VStr ''{'') = VObj []"
    "datesVal samplePlatform (VStr ''{'') = VObj []"
    by blast+
  from t2 have 2: "jsonVal samplePlatform VNull = VNull" by simp
  from t1 have 3: "jsonCell samplePlatform VUndef = Inr (VObj [])" by simp
  from t1 b d have 4: "\<exists>ord. parseExcelRow samplePlatform [(''B'', VStr ''ENC-1'')] = Inr (Some ord)
           \<and> sectorObservations ord = VObj [] \<and> sectorPredictedDates ord = VObj []
           \<and> sectorStopReasons ord = VObj []"
    by blast
  from t1 have "getProp (sqliteRow samplePlatform [''id'', ''sectorObservations'']
                  [VStr ''o1'', VStr ''{'']) ''sectorObservations''
       = jsonVal samplePlatform (getProp (rowObject [''id'', ''sectorObservations'']
                  [VStr ''o1'', VStr ''{'']) ''sectorObservations'')"
    by blast
  then have 5: "getProp (sqliteRow samplePlatform [''id'', ''sectorObservations'']
                  [VStr ''o1'', VStr ''{'']) ''sectorObservations'' = VObj []"
    by (simp only: c 1)
  from a 1 2 3 b 4 5 show ?thesis by simp
qed

text \<open>
  C2 as stated fails on both paths. In the spreadsheet path a cell \<open>AH\<close> holding \<open>{\<close>,
  which is not JSON, makes the import of the whole file fail. In the embedded-database
  path a column \<open>sectorObservations\<close> holding \<open>NULL\<close> stays \<open>null\<close> in the imported
  order: no empty mapping is put in its place.
\<close>

theorem sector_json_tolerance_counterexample:
  "jsonParse samplePlatform ''{'' = None
   \<and> parseExcelFile samplePlatform
        (Workbook [(''Dados_BD'', [headerRow, [(''B'', VStr ''ENC-1''), (''AH'', VStr ''{'')]])])
       = Inl ErroProcessarExcel
   \<and> parseSQLiteFile samplePlatform
        (Database None (Some ([''id'', ''sectorObservations''], [[VStr ''o1'', VNull]])))
       = Inr ([[(''id'', VStr ''o1''), (''sectorObservations'', VNull),
                (''priority'', VNum (Fin 0)), (''comercial'', VStr []),
                (''isManual'', VBool False), (''isArchived'', VBool False)]], [])"
  by code_simp

section \<open>Embedded-database round trip\<close>

text \<open>
  C3, as the code has it. Take orders with pairwise different text \<open>id\<close>s, whose dates
  are valid and none the instant 0, whose numbers are not NaN, whose sector mappings are
  read back from their JSON text and whose \<open>archivedBy\<close> is \<open>null\<close> or a non-empty text,
  and a headers mapping with text values. Exporting them to the database and importing
  it gives the same orders on all 45 columns, in order, and the same headers. And in any
  import of any database, a value inside \<open>sectorPredictedDates\<close> that is truthy is a
  date, never a text.
\<close>

theorem sqlite_round_trip:
  assumes "\<forall>ord \<in> set orders. sqliteStable P ord"
    and "distinct (map order_id orders)"
    and "distinct (map fst headers)"
    and "\<forall>v \<in> snd ` set headers. isText v"
  shows "sqliteRoundTrip P orders headers = Inr (map objOfOrder orders, headers)
   \<and> (\<forall>file objs hs obj kvs k v.
         parseSQLiteFile P file = Inr (objs, hs) \<and> obj \<in> set objs
         \<and> getProp obj ''sectorPredictedDates'' = VObj kvs \<and> (k, v) \<in> set kvs \<and> truthy v
         \<longrightarrow> (\<exists>d. v = VDate d))"
proof
  show "sqliteRoundTrip P orders headers = Inr (map objOfOrder orders, headers)"
    using assms by (rule sqlite_round_trip_ok)
  show "\<forall>file objs hs obj kvs k v.
         parseSQLiteFile P file = Inr (objs, hs) \<and> obj \<in> set objs
         \<and> getProp obj ''sectorPredictedDates'' = VObj kvs \<and> (k, v) \<in> set kvs \<and> truthy v
         \<longrightarrow> (\<exists>d. v = VDate d)"
  proof (intro allI impI)
    fix f objs hs obj kvs k v
    assume h: "parseSQLiteFile P f = Inr (objs, hs) \<and> obj \<in> set objs
         \<and> getProp obj ''sectorPredictedDates'' = VObj kvs \<and> (k, v) \<in> set kvs \<and> truthy v"
    show "\<exists>d. v = VDate d"
      by (rule imported_dates_hydrated [of P f objs hs obj kvs k v]) (use h in simp_all)
  qed
qed

theorem sqlite_round_trip_witness:
  "sqliteStable samplePlatform
      (blankOrder\<lparr>requestedDate := Some (DateMs jan15), priority := Fin 2,
        sectorObservations := VObj [(''tecelagem'', VStr ''ok'')],
        sectorPredictedDates := VObj [(''tinturaria'', VDate (DateMs jan15))]\<rparr>)
   \<and> sqliteStable samplePlatform (blankOrder\<lparr>order_id := VStr ''o2''\<rparr>)
   \<and> distinct (map order_id [blankOrder\<lparr>requestedDate := Some (DateMs jan15), priority := Fin 2,
        sectorObservations := VObj [(''tecelagem'', VStr ''ok'')],
        sectorPredictedDates := VObj [(''tinturaria'', VDate (DateMs jan15))]\<rparr>,
                 blankOrder\<lparr>order_id := VStr ''o2''\<rparr>])
   \<and> distinct (map fst headerRow) \<and> list_all isText (map snd headerRow)
   \<and> sqliteRoundTrip samplePlatform
        [blankOrder\<lparr>requestedDate := Some (DateMs jan15), priority := Fin 2,
        sectorObservations := VObj [(''tecelagem'', VStr ''ok'')],
        sectorPredictedDates := VObj [(''tinturaria'', VDate (DateMs jan15))]\<rparr>,
         blankOrder\<lparr>order_id := VStr ''o2''\<rparr>] headerRow
       = Inr ([objOfOrder (blankOrder\<lparr>requestedDate := Some (DateMs jan15), priority := Fin 2,
        sectorObservations := VObj [(''tecelagem'', VStr ''ok'')],
        sectorPredictedDates := VObj [(''tinturaria'', VDate (DateMs jan15))]\<rparr>),
               objOfOrder (blankOrder\<lparr>order_id := VStr ''o2''\<rparr>)], headerRow)"
proof -
  have st1: "sqliteStable samplePlatform
      (blankOrder\<lparr>requestedDate := Some (DateMs jan15), priority := Fin 2,
        sectorObservations := VObj [(''tecelagem'', VStr ''ok'')],
        sectorPredictedDates := VObj [(''tinturaria'', VDate (DateMs jan15))]\<rparr>)"
    by code_simp
  have st2: "sqliteStable samplePlatform (blankOrder\<lparr>order_id := VStr ''o2''\<rparr>)"
    by code_simp
  have st: "\<forall>ord \<in> set [blankOrder\<lparr>requestedDate := Some (DateMs jan15), priority := Fin 2,
        sectorObservations := VObj [(''tecelagem'', VStr ''ok'')],
        sectorPredictedDates := VObj [(''tinturaria'', VDate (DateMs jan15))]\<rparr>,
                 blankOrder\<lparr>order_id := VStr ''o2''\<rparr>]. sqliteStable samplePlatform ord"
    using st1 st2 by simp
  have di: "distinct (map order_id [blankOrder\<lparr>requestedDate := Some (DateMs jan15), priority := Fin 2,
        sectorObservations := VObj [(''tecelagem'', VStr ''ok'')],
        sectorPredictedDates := VObj [(''tinturaria'', VDate (DateMs jan15))]\<rparr>,
                 blankOrder\<lparr>order_id := VStr ''o2''\<rparr>])"
    by (simp add: blankOrder_def)
  have dh: "distinct (map fst headerRow)"
    by (simp add: headerRow_def)
  have tl: "list_all isText (map snd headerRow)"
    by (simp add: headerRow_def isText_def)
  then have th: "\<forall>v \<in> snd ` set headerRow. isText v"
    by (simp add: list_all_iff)
  from sqlite_round_trip [OF st di dh th]
  have r: "sqliteRoundTrip samplePlatform
        [blankOrder\<lparr>requestedDate := Some (DateMs jan15), priority := Fin 2,
        sectorObservations := VObj [(''tecelagem'', VStr ''ok'')],
        sectorPredictedDates := VObj [(''tinturaria'', VDate (DateMs jan15))]\<rparr>,
         blankOrder\<lparr>order_id := VStr ''o2''\<rparr>] headerRow
       = Inr (map objOfOrder [blankOrder\<lparr>requestedDate := Some (DateMs jan15), priority := Fin 2,
        sectorObservations := VObj [(''tecelagem'', VStr ''ok'')],
        sectorPredictedDates := VObj [(''tinturaria'', VDate (DateMs jan15))]\<rparr>,
         blankOrder\<lparr>order_id := VStr ''o2''\<rparr>], headerRow)"
    by (rule conjunct1)
  have r': "sqliteRoundTrip samplePlatform
        [blankOrder\<lparr>requestedDate := Some (DateMs jan15), priority := Fin 2,
        sectorObservations := VObj [(''tecelagem'', VStr ''ok'')],
        sectorPredictedDates := VObj [(''tinturaria'', VDate (DateMs jan15))]\<rparr>,
         blankOrder\<lparr>order_id := VStr ''o2''\<rparr>] headerRow
       = Inr ([objOfOrder (blankOrder\<lparr>requestedDate := Some (DateMs jan15), priority := Fin 2,
        sectorObservations := VObj [(''tecelagem'', VStr ''ok'')],
        sectorPredictedDates := VObj [(''tinturaria'', VDate (DateMs jan15))]\<rparr>),
               objOfOrder (blankOrder\<lparr>order_id := VStr ''o2''\<rparr>)], headerRow)"
    using r by (simp only: list.map)
  from st1 st2 di dh tl r' show ?thesis by (intro conjI)
qed

text \<open>
  C3 as stated fails. Two orders with the same \<open>id\<close> cannot be exported: the second
  insert violates the primary key and the export throws. An order as
  \<open>generateMockOrders\<close> makes it, without \<open>sectorPredictedDates\<close>,
  \<open>sectorStopReasons\<close> and \<open>archivedBy\<close>, comes back with two empty mappings and
  \<open>null\<close>. A date at the instant 0 comes back as the number 0, and an empty
  \<open>archivedBy\<close> as \<open>null\<close>.
\<close>

theorem sqlite_round_trip_counterexample:
  "sqliteRoundTrip samplePlatform [blankOrder, blankOrder] [] = Inl DatabaseError
   \<and> sqliteRoundTrip samplePlatform
        [blankOrder\<lparr>sectorPredictedDates := VUndef, sectorStopReasons := VUndef,
                   archivedBy := VUndef\<rparr>] []
       = Inr ([objOfOrder blankOrder], [])
   \<and> objOfOrder (blankOrder\<lparr>sectorPredictedDates := VUndef, sectorStopReasons := VUndef,
                   archivedBy := VUndef\<rparr>)
       \<noteq> objOfOrder blankOrder
   \<and> sqliteRoundTrip samplePlatform [blankOrder\<lparr>issueDate := Some (DateMs 0)\<rparr>] []
       = Inr ([setProp ''issueDate'' (VNum (Fin 0)) (objOfOrder blankOrder)], [])
   \<and> sqliteRoundTrip samplePlatform [blankOrder\<lparr>archivedBy := VStr []\<rparr>] []
       = Inr ([objOfOrder blankOrder], [])"
proof -
  have a: "sqliteRoundTrip samplePlatform [blankOrder, blankOrder] [] = Inl DatabaseError"
    by code_simp
  have b: "sqliteRoundTrip samplePlatform
        [blankOrder\<lparr>sectorPredictedDates := VUndef, sectorStopReasons := VUndef,
                   archivedBy := VUndef\<rparr>] []
       = Inr ([objOfOrder blankOrder], [])"
    by code_simp
  have c: "objOfOrder (blankOrder\<lparr>sectorPredictedDates := VUndef, sectorStopReasons := VUndef,
                   archivedBy := VUndef\<rparr>)
       \<noteq> objOfOrder blankOrder"
    by (simp add: objOfOrder_def blankOrder_def)
  have d: "sqliteRoundTrip samplePlatform [blankOrder\<lparr>issueDate := Some (DateMs 0)\<rparr>] []
       = Inr ([setProp ''issueDate'' (VNum (Fin 0)) (objOfOrder blankOrder)], [])"
    by code_simp
  have e: "sqliteRoundTrip samplePlatform [blankOrder\<lparr>archivedBy := VStr []\<rparr>] []
       = Inr ([objOfOrder blankOrder], [])"
    by code_simp
  from a b c d e show ?thesis by blast
qed

end
